theory Spec2Isabelle
  imports Main "HOL-Library.Word" "HOL-Library.Multiset"
begin

section \<open>The data of \<open>pkg/controller/certificates/trigger/policies/gatherer.go\<close>\<close>

text \<open>
  Go's \<open>int\<close> is a machine integer: 64 bits wide on the 64-bit platforms, where
  \<open>+\<close> wraps around silently. \<open>sint\<close> reads the signed value.
\<close>

type_synonym go_int = "64 word"

text \<open>
  Go's \<open>error\<close> values, as far as \<open>DataForCertificate\<close> tells them apart:
  \<open>apierrors.IsNotFound\<close> recognises the not-found status error of a lister, every
  other failure of a lister is opaque, and \<open>fmt.Errorf\<close> builds an error that is
  its message.
\<close>

datatype error =
    NotFound string
  | StoreError string
  | ErrorString string

text \<open>\<open>apierrors.IsNotFound(err)\<close>; a nil error is not a not-found error.\<close>

fun IsNotFound :: "error option \<Rightarrow> bool" where
  "IsNotFound (Some (NotFound _)) = True"
| "IsNotFound _ = False"

text \<open>
  \<open>cmapi.Certificate\<close>, with the fields \<open>DataForCertificate\<close> reads:
  \<open>crt.Namespace\<close>, \<open>crt.Spec.SecretName\<close> and \<open>crt.Status.Revision\<close>, a
  \<open>*int\<close> (a nil pointer is \<open>None\<close>). \<open>Name\<close> completes the identity of the
  certificate, which the spec gives as namespace and name.
\<close>

record cmapi_CertificateSpec =
  SecretName :: string

record cmapi_CertificateStatus =
  Revision :: "go_int option"

record cmapi_Certificate =
  Namespace :: string
  Name :: string
  Spec :: cmapi_CertificateSpec
  Status :: cmapi_CertificateStatus

text \<open>
  Modelled from the spec: the type \<open>cmapi.CertificateRequest\<close> is declared in a
  package that is not among the sources. The spec's IssuanceRequest has an identity, an
  owner reference "uniquely identifying the Certificate that created it" (a
  Certificate's identity is namespace and name), an integer revision and a status that
  is opaque here.
\<close>

record cmapi_CertificateRequest =
  RequestNamespace :: string
  RequestName :: string
  OwnerRef :: "string \<times> string"
  RequestRevision :: go_int
  RequestStatus :: string

text \<open>
  Modelled from the spec: the type \<open>corev1.Secret\<close> is not among the sources. The
  spec's Secret is an identity (namespace and name) and an opaque payload.
\<close>

record corev1_Secret =
  SecretNamespace :: string
  SecretObjectName :: string
  SecretData :: string

text \<open>
  \<open>Input\<close>, the value \<open>DataForCertificate\<close> returns: the four pointers that the
  composite literal of lines 311 to 316 fills. \<open>Input{}\<close> is the zero value, every
  pointer nil.
\<close>

record Input =
  Certificate :: "cmapi_Certificate option"
  Secret :: "corev1_Secret option"
  CurrentRevisionRequest :: "cmapi_CertificateRequest option"
  NextRevisionRequest :: "cmapi_CertificateRequest option"

definition Input_zero :: Input where
  "Input_zero =
     \<lparr>Certificate = None, Secret = None,
      CurrentRevisionRequest = None, NextRevisionRequest = None\<rparr>"

section \<open>The collaborators\<close>

text \<open>
  \<open>labels.Selector\<close>: \<open>DataForCertificate\<close> only ever passes
  \<open>labels.Everything()\<close>.
\<close>

datatype labels_Selector = Everything

text \<open>
  The two predicates \<open>DataForCertificate\<close> passes to the request query, kept as
  data so that a query can be compared with another one.
\<close>

datatype predicate_Func =
    ResourceOwnedBy cmapi_Certificate
  | CertificateRequestRevision go_int

text \<open>
  Modelled from the spec: package \<open>predicate\<close> is not among the sources. The request
  store filters "by an opaque ownership predicate and an exact revision match": a
  request is owned by a certificate when its owner reference is that certificate's
  identity, and matches a revision when its revision is exactly that number.
\<close>

fun Evaluate :: "predicate_Func \<Rightarrow> cmapi_CertificateRequest \<Rightarrow> bool" where
  "Evaluate (ResourceOwnedBy owner) req = (OwnerRef req = (Namespace owner, Name owner))"
| "Evaluate (CertificateRequestRevision revision) req = (RequestRevision req = revision)"

text \<open>
  \<open>Gatherer\<close>: its two listers are interfaces, so any behaviour is possible. A lister
  call returns Go's pair of a value and an error.
  \<open>CertificateRequestLister g ns sel\<close> is
  \<open>g.CertificateRequestLister.CertificateRequests(ns).List(sel)\<close> and
  \<open>SecretLister g ns name\<close> is \<open>g.SecretLister.Secrets(ns).Get(name)\<close>.
\<close>

record Gatherer =
  CertificateRequestLister ::
    "string \<Rightarrow> labels_Selector \<Rightarrow> cmapi_CertificateRequest list \<times> error option"
  SecretLister :: "string \<Rightarrow> string \<Rightarrow> corev1_Secret option \<times> error option"

text \<open>
  Modelled from the spec: \<open>certificates.ListCertificateRequestsMatchingPredicates\<close>
  is not among the sources. It is the spec's \<open>RequestStore.query\<close>: it lists the
  namespace's requests, hands a failure of the store on, and keeps the requests that
  satisfy every predicate ("named predicates combined with logical AND"), in the
  store's order.
\<close>

definition ListCertificateRequestsMatchingPredicates ::
  "(labels_Selector \<Rightarrow> cmapi_CertificateRequest list \<times> error option) \<Rightarrow> labels_Selector \<Rightarrow>
   predicate_Func list \<Rightarrow> cmapi_CertificateRequest list \<times> error option" where
  "ListCertificateRequestsMatchingPredicates lister selector predicates =
     (let (reqs, err) = lister selector
      in if err \<noteq> None then ([], err)
         else (filter (\<lambda>req. list_all (\<lambda>p. Evaluate p req) predicates) reqs, None))"

section \<open>Formatting the ambiguity error\<close>

text \<open>
  \<open>fmt.Errorf(format, revision)\<close>, as far as lines 269 and 304 use it: the verb
  \<open>%v\<close> on an \<open>int\<close> prints the decimal numeral, with a minus sign for a negative
  value, and every other character of the format is copied. A verb without an argument
  prints Go's \<open>%!v(MISSING)\<close>; the two calls never reach it.
\<close>

fun itoa :: "nat \<Rightarrow> string" where
  "itoa n =
     (if n < 10 then [''0123456789'' ! n]
      else itoa (n div 10) @ [''0123456789'' ! (n mod 10)])"

declare itoa.simps [simp del]

definition FormatInt :: "go_int \<Rightarrow> string" where
  "FormatInt i =
     (if sint i < 0 then CHR ''-'' # itoa (nat (- sint i)) else itoa (nat (sint i)))"

fun Sprintf :: "string \<Rightarrow> go_int list \<Rightarrow> string" where
  "Sprintf [] args = []"
| "Sprintf [c] args = [c]"
| "Sprintf (c # d # rest) args =
     (if c = CHR ''%'' \<and> d = CHR ''v''
      then (case args of
              a # as \<Rightarrow> FormatInt a @ Sprintf rest as
            | [] \<Rightarrow> ''%!v(MISSING)'' @ Sprintf rest [])
      else c # Sprintf (d # rest) args)"

definition fmt_Errorf :: "string \<Rightarrow> go_int list \<Rightarrow> error" where
  "fmt_Errorf format args = ErrorString (Sprintf format args)"

section \<open>The calls a resolution makes\<close>

text \<open>
  The listers are the only effect of \<open>DataForCertificate\<close>. Each call it makes is
  recorded, in order: the secret lookup of line 241, and the request query of line 259
  (\<open>Current\<close>) or of line 286 (\<open>Next\<close>) with its namespace, selector and predicates.
\<close>

datatype window = Current | Next

datatype call =
    SecretsGet string string
  | ListRequests window string labels_Selector "predicate_Func list"

section \<open>\<open>DataForCertificate\<close>\<close>

text \<open>
  The function of lines 238 to 317, statement by statement. Its result is Go's pair
  \<open>(Input, error)\<close>, followed by the calls made. The certificate pointer is taken to
  be non-nil (the first statement dereferences it). Every \<open>return Input{}, err\<close> of the
  source is a branch that returns \<open>Input_zero\<close> with the error; the logging calls
  have no effect on the result and are left out.
\<close>

definition DataForCertificate ::
  "Gatherer \<Rightarrow> cmapi_Certificate \<Rightarrow> (Input \<times> error option) \<times> call list" where
  "DataForCertificate g crt =
    (let (secret, err) = SecretLister g (Namespace crt) (SecretName (Spec crt));
         calls = [SecretsGet (Namespace crt) (SecretName (Spec crt))]
     in
     if err \<noteq> None \<and> \<not> IsNotFound err then ((Input_zero, err), calls)
     else
       let cur =
         (case Revision (Status crt) of
            None \<Rightarrow> Inr (None, calls)
          | Some revision \<Rightarrow>
              (let predicates = [ResourceOwnedBy crt, CertificateRequestRevision revision];
                   (reqs, err) = ListCertificateRequestsMatchingPredicates
                      (CertificateRequestLister g (Namespace crt)) Everything predicates;
                   calls = calls @ [ListRequests Current (Namespace crt) Everything predicates]
               in
               if err \<noteq> None then Inl ((Input_zero, err), calls)
               else if length reqs > 1 then
                 Inl ((Input_zero, Some (fmt_Errorf
                   ''multiple CertificateRequests were found for the 'current' revision %v, issuance is skipped until there are no more duplicates''
                   [revision])), calls)
               else if length reqs = 1 then Inr (Some (reqs ! 0), calls)
               else Inr (None, calls)))
       in
       case cur of
         Inl returned \<Rightarrow> returned
       | Inr (curCR, calls) \<Rightarrow>
           (let nextCRRevision =
                  (case Revision (Status crt) of None \<Rightarrow> 1 | Some revision \<Rightarrow> revision + 1);
                predicates = [ResourceOwnedBy crt, CertificateRequestRevision nextCRRevision];
                (reqs, err) = ListCertificateRequestsMatchingPredicates
                   (CertificateRequestLister g (Namespace crt)) Everything predicates;
                calls = calls @ [ListRequests Next (Namespace crt) Everything predicates]
            in
            if err \<noteq> None then ((Input_zero, err), calls)
            else if length reqs > 1 then
              ((Input_zero, Some (fmt_Errorf
                ''multiple CertificateRequests were found for the 'next' revision %v, issuance is skipped until there are no more duplicates''
                [nextCRRevision])), calls)
            else
              ((\<lparr>Certificate = Some crt, Secret = secret, CurrentRevisionRequest = curCR,
                 NextRevisionRequest = (if length reqs = 1 then Some (reqs ! 0) else None)\<rparr>,
                None), calls)))"

section \<open>Vocabulary of the statements\<close>

text \<open>
  The secret lookup and the request query of a window, as \<open>DataForCertificate\<close>
  writes them, and the record of each call.
\<close>

abbreviation lookup :: "Gatherer \<Rightarrow> cmapi_Certificate \<Rightarrow> corev1_Secret option \<times> error option" where
  "lookup g crt \<equiv> SecretLister g (Namespace crt) (SecretName (Spec crt))"

abbreviation query ::
  "Gatherer \<Rightarrow> cmapi_Certificate \<Rightarrow> go_int \<Rightarrow> cmapi_CertificateRequest list \<times> error option" where
  "query g crt r \<equiv>
     ListCertificateRequestsMatchingPredicates (CertificateRequestLister g (Namespace crt))
       Everything [ResourceOwnedBy crt, CertificateRequestRevision r]"

abbreviation lookupCall :: "cmapi_Certificate \<Rightarrow> call" where
  "lookupCall crt \<equiv> SecretsGet (Namespace crt) (SecretName (Spec crt))"

abbreviation queryCall :: "window \<Rightarrow> cmapi_Certificate \<Rightarrow> go_int \<Rightarrow> call" where
  "queryCall w crt r \<equiv>
     ListRequests w (Namespace crt) Everything [ResourceOwnedBy crt, CertificateRequestRevision r]"

text \<open>
  Every request window that a resolution can reach is in order: its query does not fail
  and yields at most one request.
\<close>

abbreviation windowsResolve :: "Gatherer \<Rightarrow> cmapi_Certificate \<Rightarrow> bool" where
  "windowsResolve g crt \<equiv>
     (case Revision (Status crt) of
        None \<Rightarrow> snd (query g crt 1) = None \<and> length (fst (query g crt 1)) \<le> 1
      | Some R \<Rightarrow>
          snd (query g crt R) = None \<and> length (fst (query g crt R)) \<le> 1 \<and>
          snd (query g crt (R + 1)) = None \<and> length (fst (query g crt (R + 1))) \<le> 1)"

text \<open>
  The spec's \<open>AmbiguityError(window, R)\<close>: the message that lines 269 and 304 format,
  with the window's name between quotes and the revision in decimal.
\<close>

fun window_name :: "window \<Rightarrow> string" where
  "window_name Current = ''current''"
| "window_name Next = ''next''"

definition AmbiguityError :: "window \<Rightarrow> go_int \<Rightarrow> error" where
  "AmbiguityError w r =
     ErrorString (''multiple CertificateRequests were found for the '' @ [CHR 0x27] @
       window_name w @ [CHR 0x27] @ '' revision '' @ FormatInt r @
       '', issuance is skipped until there are no more duplicates'')"

section \<open>In-memory collaborators\<close>

text \<open>
  Modelled from the spec: the implementations of the two listers are not among the
  sources. The spec's test implementation backs each store "with an in-memory fixture"
  and lets it "distinguish not found from query failed": a secret store that holds a
  list of secrets and answers not-found for any other name, a request store that holds
  a list of requests, and stores that fail with a given error.
\<close>

definition fakeSecretLister ::
  "corev1_Secret list \<Rightarrow> string \<Rightarrow> string \<Rightarrow> corev1_Secret option \<times> error option" where
  "fakeSecretLister secrets ns name =
     (case find (\<lambda>s. SecretNamespace s = ns \<and> SecretObjectName s = name) secrets of
        Some s \<Rightarrow> (Some s, None)
      | None \<Rightarrow> (None, Some (NotFound name)))"

definition failingSecretLister ::
  "error \<Rightarrow> string \<Rightarrow> string \<Rightarrow> corev1_Secret option \<times> error option" where
  "failingSecretLister e ns name = (None, Some e)"

definition fakeRequestLister ::
  "cmapi_CertificateRequest list \<Rightarrow> string \<Rightarrow> labels_Selector \<Rightarrow>
   cmapi_CertificateRequest list \<times> error option" where
  "fakeRequestLister reqs ns selector = (filter (\<lambda>r. RequestNamespace r = ns) reqs, None)"

definition failingRequestLister ::
  "error \<Rightarrow> string \<Rightarrow> labels_Selector \<Rightarrow> cmapi_CertificateRequest list \<times> error option" where
  "failingRequestLister e ns selector = ([], Some e)"

definition testGatherer :: "corev1_Secret list \<Rightarrow> cmapi_CertificateRequest list \<Rightarrow> Gatherer" where
  "testGatherer secrets reqs =
     \<lparr>CertificateRequestLister = fakeRequestLister reqs,
      SecretLister = fakeSecretLister secrets\<rparr>"

text \<open>A request store without a given request.\<close>

definition withoutRequest ::
  "cmapi_CertificateRequest \<Rightarrow>
   (string \<Rightarrow> labels_Selector \<Rightarrow> cmapi_CertificateRequest list \<times> error option) \<Rightarrow>
   string \<Rightarrow> labels_Selector \<Rightarrow> cmapi_CertificateRequest list \<times> error option" where
  "withoutRequest q lister ns selector =
     (removeAll q (fst (lister ns selector)), snd (lister ns selector))"

text \<open>
  The objects of the examples: the certificate \<open>default/web\<close> with secret name
  \<open>tls-secret\<close> at a given revision, a request of namespace \<open>default\<close> with a
  given name, owner and revision, and the secret \<open>default/tls-secret\<close>.
\<close>

definition testCertificate :: "go_int option \<Rightarrow> cmapi_Certificate" where
  "testCertificate revision =
     \<lparr>Namespace = ''default'', Name = ''web'',
      Spec = \<lparr>SecretName = ''tls-secret''\<rparr>, Status = \<lparr>Revision = revision\<rparr>\<rparr>"

definition testRequest :: "string \<Rightarrow> string \<Rightarrow> go_int \<Rightarrow> cmapi_CertificateRequest" where
  "testRequest name owner revision =
     \<lparr>RequestNamespace = ''default'', RequestName = name,
      OwnerRef = (''default'', owner), RequestRevision = revision, RequestStatus = ''Ready''\<rparr>"

definition testSecret :: corev1_Secret where
  "testSecret =
     \<lparr>SecretNamespace = ''default'', SecretObjectName = ''tls-secret'',
      SecretData = ''payload''\<rparr>"

section \<open>The paths through \<open>DataForCertificate\<close>\<close>

lemma Input_zero_fields:
  "Certificate Input_zero = None" "Secret Input_zero = None"
  "CurrentRevisionRequest Input_zero = None" "NextRevisionRequest Input_zero = None"
  by (simp_all add: Input_zero_def)

lemma Errorf_current:
  "fmt_Errorf
     ''multiple CertificateRequests were found for the 'current' revision %v, issuance is skipped until there are no more duplicates''
     [r] = AmbiguityError Current r"
  by (simp add: fmt_Errorf_def AmbiguityError_def)

lemma Errorf_next:
  "fmt_Errorf
     ''multiple CertificateRequests were found for the 'next' revision %v, issuance is skipped until there are no more duplicates''
     [r] = AmbiguityError Next r"
  by (simp add: fmt_Errorf_def AmbiguityError_def)

text \<open>Line 243: a failure of the secret store other than not-found ends the resolution.\<close>

lemma secret_error:
  assumes "lookup g crt = (secret, Some e)" and "\<not> IsNotFound (Some e)"
  shows "DataForCertificate g crt = ((Input_zero, Some e), [lookupCall crt])"
  using assms by (simp add: DataForCertificate_def)

text \<open>Lines 264 to 269: the current window fails.\<close>

lemma current_error:
  assumes "lookup g crt = (secret, err)" and "err = None \<or> IsNotFound err"
    and "Revision (Status crt) = Some R" and "query g crt R = (reqs, Some e)"
  shows "DataForCertificate g crt =
           ((Input_zero, Some e), [lookupCall crt, queryCall Current crt R])"
  using assms by (auto simp add: DataForCertificate_def Let_def)

lemma current_ambiguous:
  assumes "lookup g crt = (secret, err)" and "err = None \<or> IsNotFound err"
    and "Revision (Status crt) = Some R" and "query g crt R = (reqs, None)"
    and "1 < length reqs"
  shows "DataForCertificate g crt =
           ((Input_zero, Some (AmbiguityError Current R)),
            [lookupCall crt, queryCall Current crt R])"
  using assms by (auto simp add: DataForCertificate_def Let_def Errorf_current)

text \<open>Lines 277 to 316 when the revision is nil: the next revision is 1.\<close>

lemma nil_next_error:
  assumes "lookup g crt = (secret, err)" and "err = None \<or> IsNotFound err"
    and "Revision (Status crt) = None" and "query g crt 1 = (reqs, Some e)"
  shows "DataForCertificate g crt =
           ((Input_zero, Some e), [lookupCall crt, queryCall Next crt 1])"
  using assms by (auto simp add: DataForCertificate_def Let_def)

lemma nil_next_ambiguous:
  assumes "lookup g crt = (secret, err)" and "err = None \<or> IsNotFound err"
    and "Revision (Status crt) = None" and "query g crt 1 = (reqs, None)"
    and "1 < length reqs"
  shows "DataForCertificate g crt =
           ((Input_zero, Some (AmbiguityError Next 1)), [lookupCall crt, queryCall Next crt 1])"
  using assms by (auto simp add: DataForCertificate_def Let_def Errorf_next)

lemma nil_success:
  assumes "lookup g crt = (secret, err)" and "err = None \<or> IsNotFound err"
    and "Revision (Status crt) = None" and "query g crt 1 = (reqs, None)"
    and "length reqs \<le> 1"
  shows "DataForCertificate g crt =
           ((\<lparr>Certificate = Some crt, Secret = secret, CurrentRevisionRequest = None,
              NextRevisionRequest = (if length reqs = 1 then Some (reqs ! 0) else None)\<rparr>,
             None), [lookupCall crt, queryCall Next crt 1])"
  using assms by (auto simp add: DataForCertificate_def Let_def)

text \<open>
  Lines 277 to 316 when the revision is \<open>R\<close> and the current window has at most one
  request: the next revision is \<open>R + 1\<close>.
\<close>

lemma some_next_error:
  assumes "lookup g crt = (secret, err)" and "err = None \<or> IsNotFound err"
    and "Revision (Status crt) = Some R" and "query g crt R = (reqs, None)"
    and "length reqs \<le> 1" and "query g crt (R + 1) = (reqs', Some e)"
  shows "DataForCertificate g crt =
           ((Input_zero, Some e),
            [lookupCall crt, queryCall Current crt R, queryCall Next crt (R + 1)])"
  using assms by (auto simp add: DataForCertificate_def Let_def)

lemma some_next_ambiguous:
  assumes "lookup g crt = (secret, err)" and "err = None \<or> IsNotFound err"
    and "Revision (Status crt) = Some R" and "query g crt R = (reqs, None)"
    and "length reqs \<le> 1" and "query g crt (R + 1) = (reqs', None)"
    and "1 < length reqs'"
  shows "DataForCertificate g crt =
           ((Input_zero, Some (AmbiguityError Next (R + 1))),
            [lookupCall crt, queryCall Current crt R, queryCall Next crt (R + 1)])"
  using assms by (auto simp add: DataForCertificate_def Let_def Errorf_next)

lemma some_success:
  assumes "lookup g crt = (secret, err)" and "err = None \<or> IsNotFound err"
    and "Revision (Status crt) = Some R" and "query g crt R = (reqs, None)"
    and "length reqs \<le> 1" and "query g crt (R + 1) = (reqs', None)"
    and "length reqs' \<le> 1"
  shows "DataForCertificate g crt =
           ((\<lparr>Certificate = Some crt, Secret = secret,
              CurrentRevisionRequest = (if length reqs = 1 then Some (reqs ! 0) else None),
              NextRevisionRequest = (if length reqs' = 1 then Some (reqs' ! 0) else None)\<rparr>,
             None),
            [lookupCall crt, queryCall Current crt R, queryCall Next crt (R + 1)])"
  using assms by (auto simp add: DataForCertificate_def Let_def)

text \<open>
  Every resolution takes exactly one of the nine paths above: the case analysis that
  the statements below rest on.
\<close>

lemma DataForCertificate_cases [case_names SecretError CurrentError CurrentAmbiguous
    NilNextError NilNextAmbiguous NilSuccess SomeNextError SomeNextAmbiguous SomeSuccess]:
  obtains
    (SecretError) secret e where
      "lookup g crt = (secret, Some e)" "\<not> IsNotFound (Some e)"
      "DataForCertificate g crt = ((Input_zero, Some e), [lookupCall crt])"
  | (CurrentError) secret err R reqs e where
      "lookup g crt = (secret, err)" "err = None \<or> IsNotFound err"
      "Revision (Status crt) = Some R" "query g crt R = (reqs, Some e)"
      "DataForCertificate g crt =
         ((Input_zero, Some e), [lookupCall crt, queryCall Current crt R])"
  | (CurrentAmbiguous) secret err R reqs where
      "lookup g crt = (secret, err)" "err = None \<or> IsNotFound err"
      "Revision (Status crt) = Some R" "query g crt R = (reqs, None)" "1 < length reqs"
      "DataForCertificate g crt =
         ((Input_zero, Some (AmbiguityError Current R)),
          [lookupCall crt, queryCall Current crt R])"
  | (NilNextError) secret err reqs e where
      "lookup g crt = (secret, err)" "err = None \<or> IsNotFound err"
      "Revision (Status crt) = None" "query g crt 1 = (reqs, Some e)"
      "DataForCertificate g crt =
         ((Input_zero, Some e), [lookupCall crt, queryCall Next crt 1])"
  | (NilNextAmbiguous) secret err reqs where
      "lookup g crt = (secret, err)" "err = None \<or> IsNotFound err"
      "Revision (Status crt) = None" "query g crt 1 = (reqs, None)" "1 < length reqs"
      "DataForCertificate g crt =
         ((Input_zero, Some (AmbiguityError Next 1)), [lookupCall crt, queryCall Next crt 1])"
  | (NilSuccess) secret err reqs where
      "lookup g crt = (secret, err)" "err = None \<or> IsNotFound err"
      "Revision (Status crt) = None" "query g crt 1 = (reqs, None)" "length reqs \<le> 1"
      "DataForCertificate g crt =
         ((\<lparr>Certificate = Some crt, Secret = secret, CurrentRevisionRequest = None,
            NextRevisionRequest = (if length reqs = 1 then Some (reqs ! 0) else None)\<rparr>,
           None), [lookupCall crt, queryCall Next crt 1])"
  | (SomeNextError) secret err R reqs reqs' e where
      "lookup g crt = (secret, err)" "err = None \<or> IsNotFound err"
      "Revision (Status crt) = Some R" "query g crt R = (reqs, None)" "length reqs \<le> 1"
      "query g crt (R + 1) = (reqs', Some e)"
      "DataForCertificate g crt =
         ((Input_zero, Some e),
          [lookupCall crt, queryCall Current crt R, queryCall Next crt (R + 1)])"
  | (SomeNextAmbiguous) secret err R reqs reqs' where
      "lookup g crt = (secret, err)" "err = None \<or> IsNotFound err"
      "Revision (Status crt) = Some R" "query g crt R = (reqs, None)" "length reqs \<le> 1"
      "query g crt (R + 1) = (reqs', None)" "1 < length reqs'"
      "DataForCertificate g crt =
         ((Input_zero, Some (AmbiguityError Next (R + 1))),
          [lookupCall crt, queryCall Current crt R, queryCall Next crt (R + 1)])"
  | (SomeSuccess) secret err R reqs reqs' where
      "lookup g crt = (secret, err)" "err = None \<or> IsNotFound err"
      "Revision (Status crt) = Some R" "query g crt R = (reqs, None)" "length reqs \<le> 1"
      "query g crt (R + 1) = (reqs', None)" "length reqs' \<le> 1"
      "DataForCertificate g crt =
         ((\<lparr>Certificate = Some crt, Secret = secret,
            CurrentRevisionRequest = (if length reqs = 1 then Some (reqs ! 0) else None),
            NextRevisionRequest = (if length reqs' = 1 then Some (reqs' ! 0) else None)\<rparr>,
           None),
          [lookupCall crt, queryCall Current crt R, queryCall Next crt (R + 1)])"
proof -
  obtain secret err where lk: "lookup g crt = (secret, err)"
    by (cases "lookup g crt")
  show thesis
  proof (cases "err = None \<or> IsNotFound err")
    case False
    then obtain e where e: "err = Some e" and nf: "\<not> IsNotFound (Some e)"
      by (cases err) auto
    from lk e have lk': "lookup g crt = (secret, Some e)" by simp
    show thesis by (rule SecretError [OF lk' nf secret_error [OF lk' nf]])
  next
    case pass: True
    show thesis
    proof (cases "Revision (Status crt)")
      case nil: None
      obtain reqs qerr where q: "query g crt 1 = (reqs, qerr)"
        by (cases "query g crt 1")
      show thesis
      proof (cases qerr)
        case (Some e)
        with q have q': "query g crt 1 = (reqs, Some e)" by simp
        show thesis
          by (rule NilNextError [OF lk pass nil q' nil_next_error [OF lk pass nil q']])
      next
        case None
        with q have q': "query g crt 1 = (reqs, None)" by simp
        show thesis
        proof (cases "1 < length reqs")
          case True
          show thesis
            by (rule NilNextAmbiguous
                [OF lk pass nil q' True nil_next_ambiguous [OF lk pass nil q' True]])
        next
          case False
          then have le: "length reqs \<le> 1" by simp
          show thesis
            by (rule NilSuccess [OF lk pass nil q' le nil_success [OF lk pass nil q' le]])
        qed
      qed
    next
      case (Some R)
      note rev = \<open>Revision (Status crt) = Some R\<close>
      obtain reqs qerr where q: "query g crt R = (reqs, qerr)"
        by (cases "query g crt R")
      show thesis
      proof (cases qerr)
        case (Some e)
        with q have q': "query g crt R = (reqs, Some e)" by simp
        show thesis
          by (rule CurrentError [OF lk pass rev q' current_error [OF lk pass rev q']])
      next
        case None
        with q have q': "query g crt R = (reqs, None)" by simp
        show thesis
        proof (cases "1 < length reqs")
          case True
          show thesis
            by (rule CurrentAmbiguous
                [OF lk pass rev q' True current_ambiguous [OF lk pass rev q' True]])
        next
          case False
          then have le: "length reqs \<le> 1" by simp
          obtain reqs' qerr' where n: "query g crt (R + 1) = (reqs', qerr')"
            by (cases "query g crt (R + 1)")
          show thesis
          proof (cases qerr')
            case (Some e)
            with n have n': "query g crt (R + 1) = (reqs', Some e)" by simp
            show thesis
              by (rule SomeNextError
                  [OF lk pass rev q' le n' some_next_error [OF lk pass rev q' le n']])
          next
            case None
            with n have n': "query g crt (R + 1) = (reqs', None)" by simp
            show thesis
            proof (cases "1 < length reqs'")
              case True
              show thesis
                by (rule SomeNextAmbiguous
                    [OF lk pass rev q' le n' True
                      some_next_ambiguous [OF lk pass rev q' le n' True]])
            next
              case False
              then have le': "length reqs' \<le> 1" by simp
              show thesis
                by (rule SomeSuccess
                    [OF lk pass rev q' le n' le'
                      some_success [OF lk pass rev q' le n' le']])
            qed
          qed
        qed
      qed
    qed
  qed
qed

section \<open>What a resolution depends on, what it calls, what it returns\<close>

lemma DataForCertificate_cong:
  assumes "lookup g' crt = lookup g crt"
    and "\<And>r. query g' crt r = query g crt r"
  shows "DataForCertificate g' crt = DataForCertificate g crt"
  unfolding DataForCertificate_def Let_def assms by (rule refl)

lemma DataForCertificate_nil_cong:
  assumes "Revision (Status crt) = None" and "lookup g' crt = lookup g crt"
    and "query g' crt 1 = query g crt 1"
  shows "DataForCertificate g' crt = DataForCertificate g crt"
  unfolding DataForCertificate_def Let_def
  by (simp add: assms cong: if_cong option.case_cong prod.case_cong sum.case_cong)

lemma DataForCertificate_some_cong:
  assumes "Revision (Status crt) = Some R" and "lookup g' crt = lookup g crt"
    and "query g' crt R = query g crt R" and "query g' crt (R + 1) = query g crt (R + 1)"
  shows "DataForCertificate g' crt = DataForCertificate g crt"
  unfolding DataForCertificate_def Let_def
  by (simp add: assms cong: if_cong option.case_cong prod.case_cong sum.case_cong)

lemma calls_nil:
  assumes "Revision (Status crt) = None"
  shows "snd (DataForCertificate g crt) =
           (if snd (lookup g crt) \<noteq> None \<and> \<not> IsNotFound (snd (lookup g crt))
            then [lookupCall crt] else [lookupCall crt, queryCall Next crt 1])"
  using assms by (cases g crt rule: DataForCertificate_cases) auto

lemma calls_some:
  assumes "Revision (Status crt) = Some R"
  shows "snd (DataForCertificate g crt) =
           (if snd (lookup g crt) \<noteq> None \<and> \<not> IsNotFound (snd (lookup g crt))
            then [lookupCall crt]
            else if snd (query g crt R) \<noteq> None \<or> 1 < length (fst (query g crt R))
            then [lookupCall crt, queryCall Current crt R]
            else [lookupCall crt, queryCall Current crt R, queryCall Next crt (R + 1)])"
  using assms by (cases g crt rule: DataForCertificate_cases) auto

lemma error_gives_zero:
  assumes "snd (fst (DataForCertificate g crt)) \<noteq> None"
  shows "fst (fst (DataForCertificate g crt)) = Input_zero"
  using assms by (cases g crt rule: DataForCertificate_cases) auto

lemma view_certificate:
  "Certificate (fst (fst (DataForCertificate g crt))) =
     (if snd (fst (DataForCertificate g crt)) = None then Some crt else None)"
  by (cases g crt rule: DataForCertificate_cases) (auto simp add: Input_zero_fields)

lemma view_current_nil:
  assumes "Revision (Status crt) = None"
  shows "CurrentRevisionRequest (fst (fst (DataForCertificate g crt))) = None"
  using assms
  by (cases g crt rule: DataForCertificate_cases) (auto simp add: Input_zero_fields)

text \<open>
  The resolution in one expression, for a nil revision and for a revision \<open>R\<close>: what
  is returned and what is called, from what the lookup and the queries answer.
\<close>

lemma at_most_one:
  assumes "length reqs \<le> 1"
  shows "(if length reqs = 1 then Some (reqs ! 0) else None) =
         (case reqs of [] \<Rightarrow> None | x # xs \<Rightarrow> Some x)"
  using assms by (cases reqs) auto

lemma DataForCertificate_some:
  assumes "Revision (Status crt) = Some R"
  shows "DataForCertificate g crt =
     (if snd (lookup g crt) \<noteq> None \<and> \<not> IsNotFound (snd (lookup g crt))
      then ((Input_zero, snd (lookup g crt)), [lookupCall crt])
      else if snd (query g crt R) \<noteq> None
      then ((Input_zero, snd (query g crt R)), [lookupCall crt, queryCall Current crt R])
      else if 1 < length (fst (query g crt R))
      then ((Input_zero, Some (AmbiguityError Current R)),
            [lookupCall crt, queryCall Current crt R])
      else if snd (query g crt (R + 1)) \<noteq> None
      then ((Input_zero, snd (query g crt (R + 1))),
            [lookupCall crt, queryCall Current crt R, queryCall Next crt (R + 1)])
      else if 1 < length (fst (query g crt (R + 1)))
      then ((Input_zero, Some (AmbiguityError Next (R + 1))),
            [lookupCall crt, queryCall Current crt R, queryCall Next crt (R + 1)])
      else ((\<lparr>Certificate = Some crt, Secret = fst (lookup g crt),
               CurrentRevisionRequest =
                 (case fst (query g crt R) of [] \<Rightarrow> None | x # xs \<Rightarrow> Some x),
               NextRevisionRequest =
                 (case fst (query g crt (R + 1)) of [] \<Rightarrow> None | x # xs \<Rightarrow> Some x)\<rparr>,
             None),
            [lookupCall crt, queryCall Current crt R, queryCall Next crt (R + 1)]))"
  using assms
  by (cases g crt rule: DataForCertificate_cases) (auto split: list.splits)

lemma DataForCertificate_nil:
  assumes "Revision (Status crt) = None"
  shows "DataForCertificate g crt =
     (if snd (lookup g crt) \<noteq> None \<and> \<not> IsNotFound (snd (lookup g crt))
      then ((Input_zero, snd (lookup g crt)), [lookupCall crt])
      else if snd (query g crt 1) \<noteq> None
      then ((Input_zero, snd (query g crt 1)), [lookupCall crt, queryCall Next crt 1])
      else if 1 < length (fst (query g crt 1))
      then ((Input_zero, Some (AmbiguityError Next 1)), [lookupCall crt, queryCall Next crt 1])
      else ((\<lparr>Certificate = Some crt, Secret = fst (lookup g crt),
               CurrentRevisionRequest = None,
               NextRevisionRequest =
                 (case fst (query g crt 1) of [] \<Rightarrow> None | x # xs \<Rightarrow> Some x)\<rparr>,
             None),
            [lookupCall crt, queryCall Next crt 1]))"
  using assms
  by (cases g crt rule: DataForCertificate_cases) (auto split: list.splits)

text \<open>
  The order in which a store lists its requests does not matter: a resolution reads of
  each query only its error, the number of requests and, when there is at most one, the
  request itself.
\<close>

lemma mset_at_most_one:
  assumes "mset xs = mset ys" and "length xs \<le> 1"
  shows "xs = ys"
proof (cases xs)
  case Nil
  with assms(1) show ?thesis by simp
next
  case (Cons x xs')
  with assms(2) have xs: "xs = [x]" by simp
  with assms(1) have "mset ys = {#x#}" by simp
  then have "ys = [x]" by (simp add: mset_single_iff_right)
  with xs show ?thesis by simp
qed

lemma query_mset:
  assumes "mset (fst (CertificateRequestLister g' (Namespace crt) Everything)) =
           mset (fst (CertificateRequestLister g (Namespace crt) Everything))"
    and "snd (CertificateRequestLister g' (Namespace crt) Everything) =
         snd (CertificateRequestLister g (Namespace crt) Everything)"
  shows "snd (query g' crt r) = snd (query g crt r)
       \<and> mset (fst (query g' crt r)) = mset (fst (query g crt r))"
proof -
  obtain xs e where l: "CertificateRequestLister g (Namespace crt) Everything = (xs, e)"
    by (cases "CertificateRequestLister g (Namespace crt) Everything")
  obtain xs' e' where l': "CertificateRequestLister g' (Namespace crt) Everything = (xs', e')"
    by (cases "CertificateRequestLister g' (Namespace crt) Everything")
  from assms l l' have "mset xs' = mset xs" and "e' = e"
    by simp_all
  then have "mset (filter P xs') = mset (filter P xs)" for P
    by (metis mset_filter)
  with \<open>e' = e\<close> l l' show ?thesis
    by (simp add: ListCertificateRequestsMatchingPredicates_def)
qed

lemma DataForCertificate_mset_cong:
  assumes "lookup g' crt = lookup g crt"
    and "\<And>r. snd (query g' crt r) = snd (query g crt r)"
    and "\<And>r. mset (fst (query g' crt r)) = mset (fst (query g crt r))"
  shows "DataForCertificate g' crt = DataForCertificate g crt"
proof -
  have len: "length (fst (query g' crt r)) = length (fst (query g crt r))" for r
    using assms(3) [of r] by (rule mset_eq_length)
  have one: "fst (query g' crt r) = fst (query g crt r)"
    if "\<not> 1 < length (fst (query g crt r))" for r
  proof (rule mset_at_most_one [OF assms(3)])
    from that len [of r] show "length (fst (query g' crt r)) \<le> 1"
      by simp
  qed
  show ?thesis
  proof (cases "Revision (Status crt)")
    case None
    show ?thesis
      unfolding DataForCertificate_nil [OF None] assms(1) assms(2) len
      by (simp add: one)
  next
    case (Some R)
    show ?thesis
      unfolding DataForCertificate_some [OF Some] assms(1) assms(2) len
      by (simp add: one)
  qed
qed

text \<open>What a query yields, and where a populated field comes from.\<close>

lemma query_members:
  assumes "q \<in> set (fst (query g crt r))"
  shows "OwnerRef q = (Namespace crt, Name crt) \<and> RequestRevision q = r"
proof (cases "CertificateRequestLister g (Namespace crt) Everything")
  case (Pair reqs err)
  with assms show ?thesis
    by (cases err) (simp_all add: ListCertificateRequestsMatchingPredicates_def)
qed

lemma query_withoutRequest:
  assumes "OwnerRef q \<noteq> (Namespace crt, Name crt)"
  shows "ListCertificateRequestsMatchingPredicates
           (withoutRequest q (CertificateRequestLister g) (Namespace crt)) Everything
           [ResourceOwnedBy crt, CertificateRequestRevision r] = query g crt r"
proof -
  have "filter (\<lambda>req. OwnerRef req = (Namespace crt, Name crt) \<and> RequestRevision req = r)
          (removeAll q reqs) =
        filter (\<lambda>req. OwnerRef req = (Namespace crt, Name crt) \<and> RequestRevision req = r) reqs"
    for reqs
    using assms by (induction reqs) auto
  then show ?thesis
    by (simp add: ListCertificateRequestsMatchingPredicates_def withoutRequest_def
        split: prod.splits)
qed

lemma populated_fields_are_queried:
  assumes "CurrentRevisionRequest (fst (fst (DataForCertificate g crt))) = Some q
         \<or> NextRevisionRequest (fst (fst (DataForCertificate g crt))) = Some q"
  shows "\<exists>r. q \<in> set (fst (query g crt r))"
proof (cases "Revision (Status crt)")
  case None
  from assms have "q \<in> set (fst (query g crt 1))"
    unfolding DataForCertificate_nil [OF None]
    by (auto simp add: Input_zero_fields split: if_splits list.splits)
  then show ?thesis ..
next
  case (Some R)
  from assms have "q \<in> set (fst (query g crt R)) \<or> q \<in> set (fst (query g crt (R + 1)))"
    unfolding DataForCertificate_some [OF Some]
    by (auto simp add: Input_zero_fields split: if_splits list.splits)
  then show ?thesis
    by blast
qed

section \<open>The ambiguity error names its window and its revision\<close>

text \<open>
  The decimal numeral of an \<open>int\<close> determines it, so two ambiguity errors are the same
  message only for the same window and the same revision.
\<close>

lemma digit_inject:
  assumes "m < 10" and "n < 10" and "''0123456789'' ! m = ''0123456789'' ! n"
  shows "m = n"
proof -
  have "distinct ''0123456789''"
    by simp
  with assms show ?thesis
    by (simp add: nth_eq_iff_index_eq)
qed

lemma digit_not_minus:
  assumes "n < 10"
  shows "''0123456789'' ! n \<noteq> CHR ''-''"
proof -
  have "''0123456789'' ! n \<in> set ''0123456789''"
    using assms by (intro nth_mem) simp
  then show ?thesis
    by auto
qed

lemma itoa_not_Nil: "itoa n \<noteq> []"
  by (subst itoa.simps) simp

lemma itoa_no_minus: "CHR ''-'' \<notin> set (itoa n)"
proof (induction n rule: itoa.induct)
  case (1 n)
  show ?case
  proof (cases "n < 10")
    case True
    then show ?thesis
      using digit_not_minus [of n] by (subst itoa.simps) auto
  next
    case False
    with 1 digit_not_minus [of "n mod 10"] show ?thesis
      by (subst itoa.simps) auto
  qed
qed

lemma itoa_inject:
  assumes "itoa m = itoa n"
  shows "m = n"
  using assms
proof (induction m arbitrary: n rule: itoa.induct)
  case (1 m)
  show ?case
  proof (cases "m < 10")
    case small: True
    show ?thesis
    proof (cases "n < 10")
      case True
      with small 1(2) show ?thesis
        by (simp add: itoa.simps [of m] itoa.simps [of n] digit_inject)
    next
      case False
      with small 1(2) itoa_not_Nil [of "n div 10"] show ?thesis
        by (simp add: itoa.simps [of m] itoa.simps [of n] Cons_eq_append_conv)
    qed
  next
    case large: False
    show ?thesis
    proof (cases "n < 10")
      case True
      with large 1(2) itoa_not_Nil [of "m div 10"] show ?thesis
        by (simp add: itoa.simps [of m] itoa.simps [of n] append_eq_Cons_conv)
    next
      case False
      with large 1(2) have "itoa (m div 10) = itoa (n div 10)"
        and "''0123456789'' ! (m mod 10) = ''0123456789'' ! (n mod 10)"
        by (simp_all add: itoa.simps [of m] itoa.simps [of n])
      with 1(1) [OF large] have "m div 10 = n div 10" and "m mod 10 = n mod 10"
        by (simp_all add: digit_inject)
      then show ?thesis
        by (metis div_mult_mod_eq)
    qed
  qed
qed

lemma FormatInt_inject:
  assumes "FormatInt i = FormatInt j"
  shows "i = j"
proof -
  have "sint i = sint j"
  proof (cases "sint i < 0")
    case neg: True
    show ?thesis
    proof (cases "sint j < 0")
      case True
      with neg assms have "nat (- sint i) = nat (- sint j)"
        by (simp add: FormatInt_def itoa_inject)
      with neg True show ?thesis
        by simp
    next
      case False
      with neg assms have "CHR ''-'' # itoa (nat (- sint i)) = itoa (nat (sint j))"
        by (simp add: FormatInt_def)
      then have "CHR ''-'' \<in> set (itoa (nat (sint j)))"
        by (metis list.set_intros(1))
      with itoa_no_minus show ?thesis
        by blast
    qed
  next
    case pos: False
    show ?thesis
    proof (cases "sint j < 0")
      case True
      with pos assms have "itoa (nat (sint i)) = CHR ''-'' # itoa (nat (- sint j))"
        by (simp add: FormatInt_def)
      then have "CHR ''-'' \<in> set (itoa (nat (sint i)))"
        by (metis list.set_intros(1))
      with itoa_no_minus show ?thesis
        by blast
    next
      case False
      with pos assms have "nat (sint i) = nat (sint j)"
        by (simp add: FormatInt_def itoa_inject)
      with pos False show ?thesis
        by simp
    qed
  qed
  then show ?thesis
    by (rule signed_word_eqI)
qed

lemma AmbiguityError_inject:
  "AmbiguityError w r = AmbiguityError w' r' \<longleftrightarrow> w = w' \<and> r = r'"
proof
  assume eq: "AmbiguityError w r = AmbiguityError w' r'"
  have w: "w = w'"
    using eq by (cases w; cases w') (simp_all add: AmbiguityError_def)
  with eq have "FormatInt r = FormatInt r'"
    by (simp add: AmbiguityError_def)
  with w show "w = w' \<and> r = r'"
    by (simp add: FormatInt_inject)
qed simp

section \<open>The next revision on Go's \<open>int\<close>\<close>

text \<open>
  \<open>*crt.Status.Revision + 1\<close> is the integer successor for every revision below the
  largest \<open>int\<close>, where the sum does not wrap around.
\<close>

lemma sint_next_revision:
  assumes "sint (R :: go_int) < 9223372036854775807"
  shows "sint (R + 1) = sint R + 1"
proof -
  have "- (2 ^ 63) \<le> sint R"
    using sint_ge [of R] by simp
  with assms have "signed_take_bit 63 (sint R + 1) = sint R + 1"
    by (intro signed_take_bit_int_eq_self) simp_all
  then show ?thesis
    by (simp add: sint_word_ariths)
qed

section \<open>The in-memory collaborators, evaluated\<close>

lemma testCertificate_fields:
  "Namespace (testCertificate revision) = ''default''" "Name (testCertificate revision) = ''web''"
  "SecretName (Spec (testCertificate revision)) = ''tls-secret''"
  "Revision (Status (testCertificate revision)) = revision"
  by (simp_all add: testCertificate_def)

lemma lookup_absent:
  "lookup (testGatherer [] reqs) (testCertificate revision) = (None, Some (NotFound ''tls-secret''))"
  by (simp add: testGatherer_def fakeSecretLister_def testCertificate_def)

lemma lookup_present:
  "lookup (testGatherer [testSecret] reqs) (testCertificate revision) = (Some testSecret, None)"
  by (simp add: testGatherer_def fakeSecretLister_def testSecret_def testCertificate_def)

lemma query_fake:
  "query (testGatherer secrets reqs) (testCertificate revision) r =
     (filter (\<lambda>q. RequestNamespace q = ''default'' \<and> OwnerRef q = (''default'', ''web'') \<and>
                   RequestRevision q = r) reqs, None)"
  by (simp add: testGatherer_def fakeRequestLister_def testCertificate_def
      ListCertificateRequestsMatchingPredicates_def conj_commute)

lemma testRequest_fields:
  "RequestNamespace (testRequest name owner revision) = ''default''"
  "OwnerRef (testRequest name owner revision) = (''default'', owner)"
  "RequestRevision (testRequest name owner revision) = revision"
  by (simp_all add: testRequest_def)

section \<open>Ambiguity\<close>

text \<open>
  Claim C1. Whenever a window is queried (its query is among the calls of the
  resolution) and the request store yields two or more requests owned by the
  certificate for it, the resolution returns the empty \<open>Input\<close> together with the
  ambiguity error of that window and of exactly the revision queried, which is the
  error of no other window and of no other revision. The error does not depend on the
  requests found: two duplicates or twenty give the same error, and none of them is
  picked.
\<close>

theorem ambiguity_is_fatal:
  assumes queried: "queryCall w crt r \<in> set (snd (DataForCertificate g crt))"
    and yields: "query g crt r = (reqs, None)"
    and dup: "2 \<le> length reqs"
  shows "fst (DataForCertificate g crt) = (Input_zero, Some (AmbiguityError w r))
       \<and> (\<forall>w' r'. AmbiguityError w' r' = AmbiguityError w r \<longrightarrow> w' = w \<and> r' = r)"
proof (cases g crt rule: DataForCertificate_cases)
  case SecretError
  with queried show ?thesis by (simp add: AmbiguityError_inject)
next
  case CurrentError
  with queried yields show ?thesis by (auto simp add: AmbiguityError_inject)
next
  case CurrentAmbiguous
  with queried show ?thesis by (auto simp add: AmbiguityError_inject)
next
  case NilNextError
  with queried yields show ?thesis by (auto simp add: AmbiguityError_inject)
next
  case NilNextAmbiguous
  with queried show ?thesis by (auto simp add: AmbiguityError_inject)
next
  case NilSuccess
  with queried yields dup show ?thesis by (auto simp add: AmbiguityError_inject)
next
  case SomeNextError
  with queried yields dup show ?thesis by (auto simp add: AmbiguityError_inject)
next
  case SomeNextAmbiguous
  with queried yields dup show ?thesis by (auto simp add: AmbiguityError_inject)
next
  case SomeSuccess
  with queried yields dup show ?thesis by (auto simp add: AmbiguityError_inject)
qed

theorem ambiguity_is_fatal_witness:
  "queryCall Current (testCertificate (Some 7)) 7
     \<in> set (snd (DataForCertificate
          (testGatherer [testSecret] [testRequest ''a'' ''web'' 7, testRequest ''b'' ''web'' 7])
          (testCertificate (Some 7))))
   \<and> query (testGatherer [testSecret] [testRequest ''a'' ''web'' 7, testRequest ''b'' ''web'' 7])
        (testCertificate (Some 7)) 7
       = ([testRequest ''a'' ''web'' 7, testRequest ''b'' ''web'' 7], None)
   \<and> fst (DataForCertificate
          (testGatherer [testSecret] [testRequest ''a'' ''web'' 7, testRequest ''b'' ''web'' 7])
          (testCertificate (Some 7)))
       = (Input_zero, Some (AmbiguityError Current 7))"
proof -
  let ?g = "testGatherer [testSecret] [testRequest ''a'' ''web'' 7, testRequest ''b'' ''web'' 7]"
  let ?crt = "testCertificate (Some 7)"
  have yields: "query ?g ?crt 7 = ([testRequest ''a'' ''web'' 7, testRequest ''b'' ''web'' 7], None)"
    by (simp add: query_fake testRequest_fields)
  have "DataForCertificate ?g ?crt =
          ((Input_zero, Some (AmbiguityError Current 7)),
           [lookupCall ?crt, queryCall Current ?crt 7])"
    by (rule current_ambiguous [OF lookup_present _ _ yields])
       (simp_all add: testCertificate_fields)
  then have queried: "queryCall Current ?crt 7 \<in> set (snd (DataForCertificate ?g ?crt))"
    by simp
  from ambiguity_is_fatal [OF queried yields] queried yields show ?thesis
    by simp
qed

section \<open>The windows of a revision\<close>

text \<open>
  Claim C2. A certificate whose revision is nil: the current field of the returned
  \<open>Input\<close> is nil on every path; no query of the current window is among the calls,
  which are the secret lookup and, unless that lookup fails, one request query, of the
  next window with revision 1; and the result is the same for any two stores that agree
  on the secret lookup and on the requests of revision 1, whatever they hold at other
  revisions.
\<close>

theorem nil_revision_skips_current_window:
  assumes "Revision (Status crt) = None"
  shows "CurrentRevisionRequest (fst (fst (DataForCertificate g crt))) = None
       \<and> ListRequests Current ns selector predicates \<notin> set (snd (DataForCertificate g crt))
       \<and> snd (DataForCertificate g crt) =
           (if snd (lookup g crt) \<noteq> None \<and> \<not> IsNotFound (snd (lookup g crt))
            then [lookupCall crt] else [lookupCall crt, queryCall Next crt 1])
       \<and> (lookup g' crt = lookup g crt \<and> query g' crt 1 = query g crt 1
            \<longrightarrow> DataForCertificate g' crt = DataForCertificate g crt)"
proof (intro conjI impI)
  show "CurrentRevisionRequest (fst (fst (DataForCertificate g crt))) = None"
    using assms by (rule view_current_nil)
  show "ListRequests Current ns selector predicates \<notin> set (snd (DataForCertificate g crt))"
    by (simp add: calls_nil [OF assms])
  show "snd (DataForCertificate g crt) =
          (if snd (lookup g crt) \<noteq> None \<and> \<not> IsNotFound (snd (lookup g crt))
           then [lookupCall crt] else [lookupCall crt, queryCall Next crt 1])"
    using assms by (rule calls_nil)
  assume same: "lookup g' crt = lookup g crt \<and> query g' crt 1 = query g crt 1"
  show "DataForCertificate g' crt = DataForCertificate g crt"
    by (rule DataForCertificate_nil_cong [OF assms conjunct1 [OF same] conjunct2 [OF same]])
qed

theorem nil_revision_skips_current_window_witness:
  "Revision (Status (testCertificate None)) = None
   \<and> CurrentRevisionRequest (fst (fst (DataForCertificate
         (testGatherer [] [testRequest ''first'' ''web'' 1]) (testCertificate None)))) = None
   \<and> snd (DataForCertificate
         (testGatherer [] [testRequest ''first'' ''web'' 1]) (testCertificate None))
       = [lookupCall (testCertificate None), queryCall Next (testCertificate None) 1]
   \<and> DataForCertificate
         (testGatherer []
           [testRequest ''first'' ''web'' 1, testRequest ''seventh'' ''web'' 7,
            testRequest ''stranger'' ''mail'' 1])
         (testCertificate None)
       = DataForCertificate
           (testGatherer [] [testRequest ''first'' ''web'' 1]) (testCertificate None)"
proof -
  let ?crt = "testCertificate None"
  let ?g = "testGatherer [] [testRequest ''first'' ''web'' 1]"
  let ?g' = "testGatherer []
    [testRequest ''first'' ''web'' 1, testRequest ''seventh'' ''web'' 7,
     testRequest ''stranger'' ''mail'' 1]"
  have nil: "Revision (Status ?crt) = None"
    by (simp add: testCertificate_fields)
  have same: "lookup ?g' ?crt = lookup ?g ?crt \<and> query ?g' ?crt 1 = query ?g ?crt 1"
    by (simp add: lookup_absent query_fake testRequest_fields)
  from nil_revision_skips_current_window [OF nil, where g = ?g and g' = ?g'] nil same
  show ?thesis
    by (simp add: lookup_absent)
qed


text \<open>
  Claim C3, as amended. A certificate whose revision is \<open>R\<close> with \<open>R \<ge> 1\<close> and \<open>R\<close>
  below the largest \<open>int\<close>: the calls are the secret lookup, then (unless it fails) the
  query of the current window with revision exactly \<open>R\<close>, then (unless the current
  window fails) the query of the next window with revision exactly \<open>R + 1\<close>, the
  integer successor of \<open>R\<close>; and the result is the same for any two stores that agree
  on the secret lookup and on the requests of revisions \<open>R\<close> and \<open>R + 1\<close>.
\<close>

theorem revision_selects_both_windows:
  assumes "Revision (Status crt) = Some R" and "1 \<le> sint R"
    and "sint R < 9223372036854775807"
  shows "sint (R + 1) = sint R + 1
       \<and> snd (DataForCertificate g crt) =
           (if snd (lookup g crt) \<noteq> None \<and> \<not> IsNotFound (snd (lookup g crt))
            then [lookupCall crt]
            else if snd (query g crt R) \<noteq> None \<or> 1 < length (fst (query g crt R))
            then [lookupCall crt, queryCall Current crt R]
            else [lookupCall crt, queryCall Current crt R, queryCall Next crt (R + 1)])
       \<and> (lookup g' crt = lookup g crt \<and> query g' crt R = query g crt R
             \<and> query g' crt (R + 1) = query g crt (R + 1)
            \<longrightarrow> DataForCertificate g' crt = DataForCertificate g crt)"
proof (intro conjI impI)
  from assms(3) show "sint (R + 1) = sint R + 1"
    by (rule sint_next_revision)
  show "snd (DataForCertificate g crt) =
           (if snd (lookup g crt) \<noteq> None \<and> \<not> IsNotFound (snd (lookup g crt))
            then [lookupCall crt]
            else if snd (query g crt R) \<noteq> None \<or> 1 < length (fst (query g crt R))
            then [lookupCall crt, queryCall Current crt R]
            else [lookupCall crt, queryCall Current crt R, queryCall Next crt (R + 1)])"
    using assms(1) by (rule calls_some)
  assume same: "lookup g' crt = lookup g crt \<and> query g' crt R = query g crt R
            \<and> query g' crt (R + 1) = query g crt (R + 1)"
  then have "lookup g' crt = lookup g crt" and "query g' crt R = query g crt R"
    and "query g' crt (R + 1) = query g crt (R + 1)"
    by simp_all
  then show "DataForCertificate g' crt = DataForCertificate g crt"
    by (rule DataForCertificate_some_cong [OF assms(1)])
qed

theorem revision_selects_both_windows_witness:
  "Revision (Status (testCertificate (Some 1))) = Some 1 \<and> 1 \<le> sint (1 :: go_int)
   \<and> sint (1 :: go_int) < 9223372036854775807
   \<and> snd (DataForCertificate
         (testGatherer [testSecret] [testRequest ''first'' ''web'' 1, testRequest ''second'' ''web'' 2])
         (testCertificate (Some 1)))
       = [lookupCall (testCertificate (Some 1)), queryCall Current (testCertificate (Some 1)) 1,
          queryCall Next (testCertificate (Some 1)) 2]
   \<and> DataForCertificate
         (testGatherer [testSecret]
           [testRequest ''first'' ''web'' 1, testRequest ''second'' ''web'' 2,
            testRequest ''third'' ''web'' 3, testRequest ''third again'' ''web'' 3])
         (testCertificate (Some 1))
       = DataForCertificate
           (testGatherer [testSecret]
             [testRequest ''first'' ''web'' 1, testRequest ''second'' ''web'' 2])
           (testCertificate (Some 1))"
proof -
  let ?crt = "testCertificate (Some 1)"
  let ?g = "testGatherer [testSecret]
    [testRequest ''first'' ''web'' 1, testRequest ''second'' ''web'' 2]"
  let ?g' = "testGatherer [testSecret]
    [testRequest ''first'' ''web'' 1, testRequest ''second'' ''web'' 2,
     testRequest ''third'' ''web'' 3, testRequest ''third again'' ''web'' 3]"
  have rev: "Revision (Status ?crt) = Some 1"
    by (simp add: testCertificate_fields)
  have pos: "1 \<le> sint (1 :: go_int)"
    by simp
  have small: "sint (1 :: go_int) < 9223372036854775807"
    by simp
  have same: "lookup ?g' ?crt = lookup ?g ?crt \<and> query ?g' ?crt 1 = query ?g ?crt 1
      \<and> query ?g' ?crt (1 + 1) = query ?g ?crt (1 + 1)"
    by (simp add: lookup_present query_fake testRequest_fields)
  have one: "query ?g ?crt 1 = ([testRequest ''first'' ''web'' 1], None)"
    by (simp add: query_fake testRequest_fields)
  from revision_selects_both_windows [OF rev pos small, where g = ?g and g' = ?g']
    rev pos small same
  show ?thesis
    by (simp add: lookup_present one)
qed

text \<open>
  Claim C3 as stated fails at the largest \<open>int\<close>: for the revision
  \<open>9223372036854775807\<close>, which is at least 1, line 284 wraps around and the next
  window is queried with revision \<open>-9223372036854775808\<close>, which is not the revision
  plus one.
\<close>

theorem revision_selects_both_windows_counterexample:
  "Revision (Status (testCertificate (Some 9223372036854775807))) = Some 9223372036854775807
   \<and> 1 \<le> sint (9223372036854775807 :: go_int)
   \<and> snd (DataForCertificate (testGatherer [] []) (testCertificate (Some 9223372036854775807)))
       = [lookupCall (testCertificate (Some 9223372036854775807)),
          queryCall Current (testCertificate (Some 9223372036854775807)) 9223372036854775807,
          queryCall Next (testCertificate (Some 9223372036854775807)) (- 9223372036854775808)]
   \<and> sint (- 9223372036854775808 :: go_int) = - 9223372036854775808
   \<and> sint (- 9223372036854775808 :: go_int) \<noteq> sint (9223372036854775807 :: go_int) + 1"
proof -
  let ?crt = "testCertificate (Some 9223372036854775807)"
  let ?g = "testGatherer [] []"
  have rev: "Revision (Status ?crt) = Some 9223372036854775807"
    by (simp add: testCertificate_fields)
  have wraps: "(9223372036854775807 :: go_int) + 1 = - 9223372036854775808"
    by simp
  have cur: "query ?g ?crt 9223372036854775807 = ([], None)"
    by (simp add: query_fake)
  have nxt: "query ?g ?crt (9223372036854775807 + 1) = ([], None)"
    by (simp add: query_fake)
  have "DataForCertificate ?g ?crt =
      ((\<lparr>Certificate = Some ?crt, Secret = None,
         CurrentRevisionRequest = (if length ([] :: cmapi_CertificateRequest list) = 1
           then Some ([] ! 0) else None),
         NextRevisionRequest = (if length ([] :: cmapi_CertificateRequest list) = 1
           then Some ([] ! 0) else None)\<rparr>, None),
       [lookupCall ?crt, queryCall Current ?crt 9223372036854775807,
        queryCall Next ?crt (9223372036854775807 + 1)])"
    by (rule some_success [OF lookup_absent _ rev cur _ nxt]) simp_all
  then have "snd (DataForCertificate ?g ?crt) =
      [lookupCall ?crt, queryCall Current ?crt 9223372036854775807,
       queryCall Next ?crt (9223372036854775807 + 1)]"
    by simp
  with rev wraps show ?thesis
    by simp
qed

text \<open>
  Claim C9. A revision below 1 (zero or negative) is not rejected: the resolution is the
  one of any other revision. It queries the current window with exactly that value and
  the next window with that value plus one (no wrap-around occurs below 1), and applies
  the same policy to what each query yields: a store error is handed on, two or more
  requests are the ambiguity error of that window, one request populates the field and
  none leaves it nil.
\<close>

theorem revision_below_one_is_not_rejected:
  assumes "Revision (Status crt) = Some R" and "sint R < 1"
  shows "sint (R + 1) = sint R + 1
       \<and> DataForCertificate g crt =
     (if snd (lookup g crt) \<noteq> None \<and> \<not> IsNotFound (snd (lookup g crt))
      then ((Input_zero, snd (lookup g crt)), [lookupCall crt])
      else if snd (query g crt R) \<noteq> None
      then ((Input_zero, snd (query g crt R)), [lookupCall crt, queryCall Current crt R])
      else if 1 < length (fst (query g crt R))
      then ((Input_zero, Some (AmbiguityError Current R)),
            [lookupCall crt, queryCall Current crt R])
      else if snd (query g crt (R + 1)) \<noteq> None
      then ((Input_zero, snd (query g crt (R + 1))),
            [lookupCall crt, queryCall Current crt R, queryCall Next crt (R + 1)])
      else if 1 < length (fst (query g crt (R + 1)))
      then ((Input_zero, Some (AmbiguityError Next (R + 1))),
            [lookupCall crt, queryCall Current crt R, queryCall Next crt (R + 1)])
      else ((\<lparr>Certificate = Some crt, Secret = fst (lookup g crt),
               CurrentRevisionRequest =
                 (case fst (query g crt R) of [] \<Rightarrow> None | x # xs \<Rightarrow> Some x),
               NextRevisionRequest =
                 (case fst (query g crt (R + 1)) of [] \<Rightarrow> None | x # xs \<Rightarrow> Some x)\<rparr>,
             None),
            [lookupCall crt, queryCall Current crt R, queryCall Next crt (R + 1)]))"
proof
  from assms(2) show "sint (R + 1) = sint R + 1"
    by (intro sint_next_revision) simp
  from assms(1) show "DataForCertificate g crt =
     (if snd (lookup g crt) \<noteq> None \<and> \<not> IsNotFound (snd (lookup g crt))
      then ((Input_zero, snd (lookup g crt)), [lookupCall crt])
      else if snd (query g crt R) \<noteq> None
      then ((Input_zero, snd (query g crt R)), [lookupCall crt, queryCall Current crt R])
      else if 1 < length (fst (query g crt R))
      then ((Input_zero, Some (AmbiguityError Current R)),
            [lookupCall crt, queryCall Current crt R])
      else if snd (query g crt (R + 1)) \<noteq> None
      then ((Input_zero, snd (query g crt (R + 1))),
            [lookupCall crt, queryCall Current crt R, queryCall Next crt (R + 1)])
      else if 1 < length (fst (query g crt (R + 1)))
      then ((Input_zero, Some (AmbiguityError Next (R + 1))),
            [lookupCall crt, queryCall Current crt R, queryCall Next crt (R + 1)])
      else ((\<lparr>Certificate = Some crt, Secret = fst (lookup g crt),
               CurrentRevisionRequest =
                 (case fst (query g crt R) of [] \<Rightarrow> None | x # xs \<Rightarrow> Some x),
               NextRevisionRequest =
                 (case fst (query g crt (R + 1)) of [] \<Rightarrow> None | x # xs \<Rightarrow> Some x)\<rparr>,
             None),
            [lookupCall crt, queryCall Current crt R, queryCall Next crt (R + 1)]))"
    by (rule DataForCertificate_some)
qed

theorem revision_below_one_is_not_rejected_witness:
  "Revision (Status (testCertificate (Some (- 1)))) = Some (- 1) \<and> sint (- 1 :: go_int) < 1
   \<and> DataForCertificate
       (testGatherer [testSecret]
         [testRequest ''minus one'' ''web'' (- 1), testRequest ''zero'' ''web'' 0])
       (testCertificate (Some (- 1)))
     = ((\<lparr>Certificate = Some (testCertificate (Some (- 1))), Secret = Some testSecret,
          CurrentRevisionRequest = Some (testRequest ''minus one'' ''web'' (- 1)),
          NextRevisionRequest = Some (testRequest ''zero'' ''web'' 0)\<rparr>, None),
        [lookupCall (testCertificate (Some (- 1))),
         queryCall Current (testCertificate (Some (- 1))) (- 1),
         queryCall Next (testCertificate (Some (- 1))) 0])"
proof -
  let ?crt = "testCertificate (Some (- 1))"
  let ?g = "testGatherer [testSecret]
    [testRequest ''minus one'' ''web'' (- 1), testRequest ''zero'' ''web'' 0]"
  have rev: "Revision (Status ?crt) = Some (- 1)"
    by (simp add: testCertificate_fields)
  have low: "sint (- 1 :: go_int) < 1"
    by simp
  have cur: "query ?g ?crt (- 1) = ([testRequest ''minus one'' ''web'' (- 1)], None)"
    by (simp add: query_fake testRequest_fields)
  have nxt: "query ?g ?crt 0 = ([testRequest ''zero'' ''web'' 0], None)"
    by (simp add: query_fake testRequest_fields)
  from revision_below_one_is_not_rejected [OF rev low, of ?g] rev low show ?thesis
    by (simp add: lookup_present cur nxt)
qed

text \<open>
  Claim C4, as amended. For every queried window whose query yields no request or
  one request: in the next window, the resolution returns no error and the next field
  is nil for no request and that very request for one; in the current window, the
  window raises no error (the query of the next window is issued, and the resolution
  fails exactly when the next window fails, by a store error or by two or more
  requests), and whenever the resolution returns no error the current field is nil for
  no request and that very request for one (with an error, the view is empty).
\<close>

theorem window_cardinality:
  assumes "queryCall w crt r \<in> set (snd (DataForCertificate g crt))"
    and "query g crt r = (reqs, None)"
    and "length reqs \<le> 1"
  shows "(w = Next \<longrightarrow>
            snd (fst (DataForCertificate g crt)) = None
          \<and> NextRevisionRequest (fst (fst (DataForCertificate g crt))) =
              (case reqs of [] \<Rightarrow> None | x # xs \<Rightarrow> Some x))
       \<and> (w = Current \<longrightarrow>
            queryCall Next crt (r + 1) \<in> set (snd (DataForCertificate g crt))
          \<and> (snd (fst (DataForCertificate g crt)) = None \<longleftrightarrow>
               snd (query g crt (r + 1)) = None \<and> length (fst (query g crt (r + 1))) \<le> 1)
          \<and> CurrentRevisionRequest (fst (fst (DataForCertificate g crt))) =
               (if snd (fst (DataForCertificate g crt)) = None
                then (case reqs of [] \<Rightarrow> None | x # xs \<Rightarrow> Some x) else None))"
proof (cases "Revision (Status crt)")
  case None
  from assms show ?thesis
    unfolding DataForCertificate_nil [OF None]
    by (auto simp add: Input_zero_fields split: if_splits)
next
  case (Some R)
  from assms show ?thesis
    unfolding DataForCertificate_some [OF Some]
    by (auto simp add: Input_zero_fields split: if_splits)
qed

theorem window_cardinality_witness:
  "queryCall Current (testCertificate (Some 1)) 1
     \<in> set (snd (DataForCertificate
          (testGatherer [testSecret] [testRequest ''first'' ''web'' 1]) (testCertificate (Some 1))))
   \<and> query (testGatherer [testSecret] [testRequest ''first'' ''web'' 1]) (testCertificate (Some 1)) 1
       = ([testRequest ''first'' ''web'' 1], None)
   \<and> queryCall Next (testCertificate (Some 1)) 2
     \<in> set (snd (DataForCertificate
          (testGatherer [testSecret] [testRequest ''first'' ''web'' 1]) (testCertificate (Some 1))))
   \<and> query (testGatherer [testSecret] [testRequest ''first'' ''web'' 1]) (testCertificate (Some 1)) 2
       = ([], None)
   \<and> snd (fst (DataForCertificate
         (testGatherer [testSecret] [testRequest ''first'' ''web'' 1]) (testCertificate (Some 1))))
       = None
   \<and> CurrentRevisionRequest (fst (fst (DataForCertificate
         (testGatherer [testSecret] [testRequest ''first'' ''web'' 1]) (testCertificate (Some 1)))))
       = Some (testRequest ''first'' ''web'' 1)
   \<and> NextRevisionRequest (fst (fst (DataForCertificate
         (testGatherer [testSecret] [testRequest ''first'' ''web'' 1]) (testCertificate (Some 1)))))
       = None"
proof -
  let ?crt = "testCertificate (Some 1)"
  let ?g = "testGatherer [testSecret] [testRequest ''first'' ''web'' 1]"
  have cur: "query ?g ?crt 1 = ([testRequest ''first'' ''web'' 1], None)"
    by (simp add: query_fake testRequest_fields)
  have nxt: "query ?g ?crt 2 = ([], None)"
    by (simp add: query_fake testRequest_fields)
  have nxt': "query ?g ?crt (1 + 1) = ([], None)"
    using nxt by simp
  have calls: "snd (DataForCertificate ?g ?crt) =
      [lookupCall ?crt, queryCall Current ?crt 1, queryCall Next ?crt (1 + 1)]"
    by (simp add: some_success [OF lookup_present _ _ cur _ nxt'] testCertificate_fields)
  have qcur: "queryCall Current ?crt 1 \<in> set (snd (DataForCertificate ?g ?crt))"
    by (simp add: calls)
  have qnxt: "queryCall Next ?crt 2 \<in> set (snd (DataForCertificate ?g ?crt))"
    by (simp add: calls)
  from window_cardinality [OF qcur cur] window_cardinality [OF qnxt nxt] qcur qnxt cur nxt
  show ?thesis
    by simp
qed

text \<open>
  Claim C4 as stated fails in the current window when the next window fails. With no
  request of revision 1 and two of revision 2, the current query yields nothing and yet
  an error is raised; with one request of revision 1 and two of revision 2, the current
  query yields exactly one request and the current field returned is nil.
\<close>

theorem window_cardinality_counterexample:
  "queryCall Current (testCertificate (Some 1)) 1
     \<in> set (snd (DataForCertificate
          (testGatherer [] [testRequest ''second'' ''web'' 2, testRequest ''second again'' ''web'' 2])
          (testCertificate (Some 1))))
   \<and> query
       (testGatherer [] [testRequest ''second'' ''web'' 2, testRequest ''second again'' ''web'' 2])
       (testCertificate (Some 1)) 1 = ([], None)
   \<and> snd (fst (DataForCertificate
         (testGatherer [] [testRequest ''second'' ''web'' 2, testRequest ''second again'' ''web'' 2])
         (testCertificate (Some 1)))) \<noteq> None
   \<and> query
       (testGatherer []
         [testRequest ''first'' ''web'' 1, testRequest ''second'' ''web'' 2,
          testRequest ''second again'' ''web'' 2])
       (testCertificate (Some 1)) 1 = ([testRequest ''first'' ''web'' 1], None)
   \<and> CurrentRevisionRequest (fst (fst (DataForCertificate
         (testGatherer []
           [testRequest ''first'' ''web'' 1, testRequest ''second'' ''web'' 2,
            testRequest ''second again'' ''web'' 2])
         (testCertificate (Some 1))))) \<noteq> Some (testRequest ''first'' ''web'' 1)"
proof -
  let ?crt = "testCertificate (Some 1)"
  let ?g0 = "testGatherer []
    [testRequest ''second'' ''web'' 2, testRequest ''second again'' ''web'' 2]"
  let ?g1 = "testGatherer []
    [testRequest ''first'' ''web'' 1, testRequest ''second'' ''web'' 2,
     testRequest ''second again'' ''web'' 2]"
  have rev: "Revision (Status ?crt) = Some 1"
    by (simp add: testCertificate_fields)
  have cur0: "query ?g0 ?crt 1 = ([], None)"
    by (simp add: query_fake testRequest_fields)
  have nxt0: "query ?g0 ?crt (1 + 1) =
      ([testRequest ''second'' ''web'' 2, testRequest ''second again'' ''web'' 2], None)"
    by (simp add: query_fake testRequest_fields)
  have run0: "DataForCertificate ?g0 ?crt =
      ((Input_zero, Some (AmbiguityError Next (1 + 1))),
       [lookupCall ?crt, queryCall Current ?crt 1, queryCall Next ?crt (1 + 1)])"
    by (rule some_next_ambiguous [OF lookup_absent _ rev cur0 _ nxt0]) simp_all
  have cur1: "query ?g1 ?crt 1 = ([testRequest ''first'' ''web'' 1], None)"
    by (simp add: query_fake testRequest_fields)
  have nxt1: "query ?g1 ?crt (1 + 1) =
      ([testRequest ''second'' ''web'' 2, testRequest ''second again'' ''web'' 2], None)"
    by (simp add: query_fake testRequest_fields)
  have run1: "DataForCertificate ?g1 ?crt =
      ((Input_zero, Some (AmbiguityError Next (1 + 1))),
       [lookupCall ?crt, queryCall Current ?crt 1, queryCall Next ?crt (1 + 1)])"
    by (rule some_next_ambiguous [OF lookup_absent _ rev cur1 _ nxt1]) simp_all
  show ?thesis
    by (simp add: run0 run1 cur0 cur1 Input_zero_fields)
qed

section \<open>Ownership\<close>

text \<open>
  Claim C6. A request whose owner reference is not the identity of the given
  certificate, whatever its revision: no query of a window yields it, so it is not
  counted; neither the current nor the next field of the returned \<open>Input\<close> is ever
  that request; and the resolution (result, error and calls) is the same as against the
  store without that request.
\<close>

theorem foreign_requests_never_count:
  assumes "OwnerRef q \<noteq> (Namespace crt, Name crt)"
  shows "q \<notin> set (fst (query g crt r))
       \<and> CurrentRevisionRequest (fst (fst (DataForCertificate g crt))) \<noteq> Some q
       \<and> NextRevisionRequest (fst (fst (DataForCertificate g crt))) \<noteq> Some q
       \<and> DataForCertificate
           (g\<lparr>CertificateRequestLister := withoutRequest q (CertificateRequestLister g)\<rparr>) crt
         = DataForCertificate g crt"
proof (intro conjI)
  from assms show "q \<notin> set (fst (query g crt r))"
    using query_members [of q g crt r] by blast
  from assms show "CurrentRevisionRequest (fst (fst (DataForCertificate g crt))) \<noteq> Some q"
    using populated_fields_are_queried [of g crt q] query_members [of q g crt] by blast
  from assms show "NextRevisionRequest (fst (fst (DataForCertificate g crt))) \<noteq> Some q"
    using populated_fields_are_queried [of g crt q] query_members [of q g crt] by blast
  show "DataForCertificate
          (g\<lparr>CertificateRequestLister := withoutRequest q (CertificateRequestLister g)\<rparr>) crt
        = DataForCertificate g crt"
    by (rule DataForCertificate_cong) (simp_all add: query_withoutRequest [OF assms])
qed

theorem foreign_requests_never_count_witness:
  "OwnerRef (testRequest ''stranger'' ''mail'' 1)
     \<noteq> (Namespace (testCertificate None), Name (testCertificate None))
   \<and> RequestRevision (testRequest ''stranger'' ''mail'' 1) = 1
   \<and> query
       (testGatherer [] [testRequest ''stranger'' ''mail'' 1, testRequest ''first'' ''web'' 1])
       (testCertificate None) 1 = ([testRequest ''first'' ''web'' 1], None)
   \<and> fst (DataForCertificate
       (testGatherer [] [testRequest ''stranger'' ''mail'' 1, testRequest ''first'' ''web'' 1])
       (testCertificate None))
     = (\<lparr>Certificate = Some (testCertificate None), Secret = None,
         CurrentRevisionRequest = None,
         NextRevisionRequest = Some (testRequest ''first'' ''web'' 1)\<rparr>, None)
   \<and> NextRevisionRequest (fst (fst (DataForCertificate
       (testGatherer [] [testRequest ''stranger'' ''mail'' 1, testRequest ''first'' ''web'' 1])
       (testCertificate None)))) \<noteq> Some (testRequest ''stranger'' ''mail'' 1)
   \<and> DataForCertificate
       ((testGatherer [] [testRequest ''stranger'' ''mail'' 1, testRequest ''first'' ''web'' 1])
         \<lparr>CertificateRequestLister :=
            withoutRequest (testRequest ''stranger'' ''mail'' 1)
              (CertificateRequestLister
                (testGatherer []
                  [testRequest ''stranger'' ''mail'' 1, testRequest ''first'' ''web'' 1]))\<rparr>)
       (testCertificate None)
     = DataForCertificate
       (testGatherer [] [testRequest ''stranger'' ''mail'' 1, testRequest ''first'' ''web'' 1])
       (testCertificate None)"
proof -
  let ?crt = "testCertificate None"
  let ?q = "testRequest ''stranger'' ''mail'' 1"
  let ?g = "testGatherer [] [?q, testRequest ''first'' ''web'' 1]"
  have foreign: "OwnerRef ?q \<noteq> (Namespace ?crt, Name ?crt)"
    by (simp add: testRequest_fields testCertificate_fields)
  have nil: "Revision (Status ?crt) = None"
    by (simp add: testCertificate_fields)
  have nxt: "query ?g ?crt 1 = ([testRequest ''first'' ''web'' 1], None)"
    by (simp add: query_fake testRequest_fields)
  have run: "fst (DataForCertificate ?g ?crt) =
      (\<lparr>Certificate = Some ?crt, Secret = None, CurrentRevisionRequest = None,
        NextRevisionRequest = Some (testRequest ''first'' ''web'' 1)\<rparr>, None)"
    by (simp add: nil_success [OF lookup_absent _ nil nxt])
  from foreign_requests_never_count [OF foreign, of ?g 1] foreign nxt run show ?thesis
    by (simp add: testRequest_fields)
qed

section \<open>Errors\<close>

text \<open>
  Claim C5, as amended. When the secret is absent (the lister answers nil and a
  not-found error), the lookup raises no error and the secret field of the returned
  \<open>Input\<close> is nil; the resolution then fails exactly when a request window fails (a
  request query fails or yields two or more requests). When the lookup fails with any
  other error, the resolution stops there and returns that very error.
\<close>

theorem secret_lookup_outcomes:
  "(lookup g crt = (None, Some e) \<and> IsNotFound (Some e) \<longrightarrow>
      Secret (fst (fst (DataForCertificate g crt))) = None
    \<and> (snd (fst (DataForCertificate g crt)) = None \<longleftrightarrow> windowsResolve g crt))
   \<and> (lookup g crt = (secret, Some e) \<and> \<not> IsNotFound (Some e) \<longrightarrow>
      DataForCertificate g crt = ((Input_zero, Some e), [lookupCall crt]))"
proof (intro conjI impI)
  assume absent: "lookup g crt = (None, Some e) \<and> IsNotFound (Some e)"
  show "Secret (fst (fst (DataForCertificate g crt))) = None"
  proof (cases "Revision (Status crt)")
    case None
    with absent show ?thesis
      by (simp add: DataForCertificate_nil Input_zero_fields)
  next
    case (Some R)
    with absent show ?thesis
      by (simp add: DataForCertificate_some Input_zero_fields)
  qed
  show "snd (fst (DataForCertificate g crt)) = None \<longleftrightarrow> windowsResolve g crt"
  proof (cases "Revision (Status crt)")
    case None
    with absent show ?thesis
      by (auto simp add: DataForCertificate_nil AmbiguityError_def)
  next
    case (Some R)
    with absent show ?thesis
      by (auto simp add: DataForCertificate_some AmbiguityError_def)
  qed
next
  assume "lookup g crt = (secret, Some e) \<and> \<not> IsNotFound (Some e)"
  then show "DataForCertificate g crt = ((Input_zero, Some e), [lookupCall crt])"
    by (simp add: secret_error)
qed

theorem secret_lookup_outcomes_witness:
  "lookup (testGatherer [] [testRequest ''first'' ''web'' 1]) (testCertificate (Some 1))
     = (None, Some (NotFound ''tls-secret''))
   \<and> IsNotFound (Some (NotFound ''tls-secret''))
   \<and> windowsResolve (testGatherer [] [testRequest ''first'' ''web'' 1]) (testCertificate (Some 1))
   \<and> Secret (fst (fst (DataForCertificate
         (testGatherer [] [testRequest ''first'' ''web'' 1]) (testCertificate (Some 1))))) = None
   \<and> snd (fst (DataForCertificate
         (testGatherer [] [testRequest ''first'' ''web'' 1]) (testCertificate (Some 1)))) = None
   \<and> lookup
       \<lparr>CertificateRequestLister = fakeRequestLister [testRequest ''first'' ''web'' 1],
        SecretLister = failingSecretLister (StoreError ''secret store unreachable'')\<rparr>
       (testCertificate (Some 1))
     = (None, Some (StoreError ''secret store unreachable''))
   \<and> \<not> IsNotFound (Some (StoreError ''secret store unreachable''))
   \<and> DataForCertificate
       \<lparr>CertificateRequestLister = fakeRequestLister [testRequest ''first'' ''web'' 1],
        SecretLister = failingSecretLister (StoreError ''secret store unreachable'')\<rparr>
       (testCertificate (Some 1))
     = ((Input_zero, Some (StoreError ''secret store unreachable'')),
        [lookupCall (testCertificate (Some 1))])"
proof -
  let ?crt = "testCertificate (Some 1)"
  let ?g = "testGatherer [] [testRequest ''first'' ''web'' 1]"
  let ?broken = "\<lparr>CertificateRequestLister = fakeRequestLister [testRequest ''first'' ''web'' 1],
    SecretLister = failingSecretLister (StoreError ''secret store unreachable'')\<rparr>"
  have absent: "lookup ?g ?crt = (None, Some (NotFound ''tls-secret''))
      \<and> IsNotFound (Some (NotFound ''tls-secret''))"
    by (simp add: lookup_absent)
  have windows: "windowsResolve ?g ?crt"
    by (simp add: testCertificate_fields(4) query_fake testRequest_fields)
  have failing: "lookup ?broken ?crt = (None, Some (StoreError ''secret store unreachable''))
      \<and> \<not> IsNotFound (Some (StoreError ''secret store unreachable''))"
    by (simp add: failingSecretLister_def)
  from secret_lookup_outcomes [of ?g ?crt "NotFound ''tls-secret''" None]
    secret_lookup_outcomes [of ?broken ?crt "StoreError ''secret store unreachable''" None]
    absent windows failing
  show ?thesis
    by simp
qed

text \<open>
  Claim C5 as stated fails: with the secret absent and two requests of revision 1 owned
  by a certificate whose revision is nil, the resolution fails with the ambiguity error
  of the next window.
\<close>

theorem secret_lookup_outcomes_counterexample:
  "lookup
     (testGatherer [] [testRequest ''first'' ''web'' 1, testRequest ''first again'' ''web'' 1])
     (testCertificate None) = (None, Some (NotFound ''tls-secret''))
   \<and> IsNotFound (Some (NotFound ''tls-secret''))
   \<and> snd (fst (DataForCertificate
         (testGatherer [] [testRequest ''first'' ''web'' 1, testRequest ''first again'' ''web'' 1])
         (testCertificate None))) = Some (AmbiguityError Next 1)
   \<and> snd (fst (DataForCertificate
         (testGatherer [] [testRequest ''first'' ''web'' 1, testRequest ''first again'' ''web'' 1])
         (testCertificate None))) \<noteq> None"
proof -
  let ?crt = "testCertificate None"
  let ?g = "testGatherer []
    [testRequest ''first'' ''web'' 1, testRequest ''first again'' ''web'' 1]"
  have nil: "Revision (Status ?crt) = None"
    by (simp add: testCertificate_fields)
  have nxt: "query ?g ?crt 1 =
      ([testRequest ''first'' ''web'' 1, testRequest ''first again'' ''web'' 1], None)"
    by (simp add: query_fake testRequest_fields)
  have "DataForCertificate ?g ?crt =
      ((Input_zero, Some (AmbiguityError Next 1)), [lookupCall ?crt, queryCall Next ?crt 1])"
    by (rule nil_next_ambiguous [OF lookup_absent _ nil nxt]) simp_all
  then show ?thesis
    by (simp add: lookup_absent)
qed

text \<open>
  Claim C7. Whenever the resolution returns an error, whichever step raised it (a
  store error of the secret lookup or of a request query, or the ambiguity of either
  window), the \<open>Input\<close> returned with it is the zero value: certificate, secret,
  current request and next request are all nil, also when the secret or the current
  request had been found before the failing step.
\<close>

theorem error_returns_empty_view:
  assumes "snd (fst (DataForCertificate g crt)) \<noteq> None"
  shows "fst (fst (DataForCertificate g crt)) = Input_zero
       \<and> Certificate (fst (fst (DataForCertificate g crt))) = None
       \<and> Secret (fst (fst (DataForCertificate g crt))) = None
       \<and> CurrentRevisionRequest (fst (fst (DataForCertificate g crt))) = None
       \<and> NextRevisionRequest (fst (fst (DataForCertificate g crt))) = None"
  using error_gives_zero [OF assms] by (simp add: Input_zero_fields)

theorem error_returns_empty_view_witness:
  "lookup
     (testGatherer [testSecret]
       [testRequest ''first'' ''web'' 1, testRequest ''second'' ''web'' 2,
        testRequest ''second again'' ''web'' 2])
     (testCertificate (Some 1)) = (Some testSecret, None)
   \<and> snd (fst (DataForCertificate
         (testGatherer [testSecret]
           [testRequest ''first'' ''web'' 1, testRequest ''second'' ''web'' 2,
            testRequest ''second again'' ''web'' 2])
         (testCertificate (Some 1)))) = Some (AmbiguityError Next 2)
   \<and> Secret (fst (fst (DataForCertificate
         (testGatherer [testSecret]
           [testRequest ''first'' ''web'' 1, testRequest ''second'' ''web'' 2,
            testRequest ''second again'' ''web'' 2])
         (testCertificate (Some 1))))) = None
   \<and> CurrentRevisionRequest (fst (fst (DataForCertificate
         (testGatherer [testSecret]
           [testRequest ''first'' ''web'' 1, testRequest ''second'' ''web'' 2,
            testRequest ''second again'' ''web'' 2])
         (testCertificate (Some 1))))) = None
   \<and> lookup
       \<lparr>CertificateRequestLister = failingRequestLister (StoreError ''request store unreachable''),
        SecretLister = fakeSecretLister [testSecret]\<rparr>
       (testCertificate None) = (Some testSecret, None)
   \<and> snd (fst (DataForCertificate
       \<lparr>CertificateRequestLister = failingRequestLister (StoreError ''request store unreachable''),
        SecretLister = fakeSecretLister [testSecret]\<rparr>
       (testCertificate None))) = Some (StoreError ''request store unreachable'')
   \<and> Secret (fst (fst (DataForCertificate
       \<lparr>CertificateRequestLister = failingRequestLister (StoreError ''request store unreachable''),
        SecretLister = fakeSecretLister [testSecret]\<rparr>
       (testCertificate None)))) = None"
proof -
  let ?crt = "testCertificate (Some 1)"
  let ?g = "testGatherer [testSecret]
    [testRequest ''first'' ''web'' 1, testRequest ''second'' ''web'' 2,
     testRequest ''second again'' ''web'' 2]"
  let ?nil = "testCertificate None"
  let ?broken = "\<lparr>CertificateRequestLister =
      failingRequestLister (StoreError ''request store unreachable''),
    SecretLister = fakeSecretLister [testSecret]\<rparr>"
  have found: "lookup ?broken ?nil = (Some testSecret, None)"
    by (simp add: fakeSecretLister_def testSecret_def testCertificate_def)
  have unreachable: "query ?broken ?nil 1 = ([], Some (StoreError ''request store unreachable''))"
    by (simp add: failingRequestLister_def ListCertificateRequestsMatchingPredicates_def)
  have run': "DataForCertificate ?broken ?nil =
      ((Input_zero, Some (StoreError ''request store unreachable'')),
       [lookupCall ?nil, queryCall Next ?nil 1])"
    by (rule nil_next_error [OF found _ _ unreachable]) (simp_all add: testCertificate_fields)
  then have failed': "snd (fst (DataForCertificate ?broken ?nil)) \<noteq> None"
    by simp
  have cur: "query ?g ?crt 1 = ([testRequest ''first'' ''web'' 1], None)"
    by (simp add: query_fake testRequest_fields)
  have nxt: "query ?g ?crt (1 + 1) =
      ([testRequest ''second'' ''web'' 2, testRequest ''second again'' ''web'' 2], None)"
    by (simp add: query_fake testRequest_fields)
  have run: "DataForCertificate ?g ?crt =
      ((Input_zero, Some (AmbiguityError Next (1 + 1))),
       [lookupCall ?crt, queryCall Current ?crt 1, queryCall Next ?crt (1 + 1)])"
    by (rule some_next_ambiguous [OF lookup_present _ _ cur _ nxt])
       (simp_all add: testCertificate_fields)
  then have failed: "snd (fst (DataForCertificate ?g ?crt)) \<noteq> None"
    by simp
  from error_returns_empty_view [OF failed] error_returns_empty_view [OF failed'] run run' found
  show ?thesis
    by (simp add: lookup_present)
qed

text \<open>
  Claim C8, as amended. For a certificate with revision \<open>R\<close> whose secret lookup does
  not fail with a store error, and whose request store yields two or more requests in
  the current window and two or more in the next: the resolution returns the ambiguity
  error of the current window, and its calls are the secret lookup and the query of the
  current window only, so no query of the next window is issued.
\<close>

theorem current_window_is_resolved_first:
  assumes "snd (lookup g crt) = None \<or> IsNotFound (snd (lookup g crt))"
    and "Revision (Status crt) = Some R"
    and "query g crt R = (reqs, None)" and "2 \<le> length reqs"
    and "query g crt (R + 1) = (reqs', None)" and "2 \<le> length reqs'"
  shows "fst (DataForCertificate g crt) = (Input_zero, Some (AmbiguityError Current R))
       \<and> snd (DataForCertificate g crt) = [lookupCall crt, queryCall Current crt R]
       \<and> ListRequests Next ns selector predicates \<notin> set (snd (DataForCertificate g crt))"
proof -
  obtain secret err where "lookup g crt = (secret, err)"
    by (cases "lookup g crt")
  moreover from this assms(1) have "err = None \<or> IsNotFound err"
    by simp
  moreover from assms(4) have "1 < length reqs"
    by simp
  ultimately have "DataForCertificate g crt =
      ((Input_zero, Some (AmbiguityError Current R)), [lookupCall crt, queryCall Current crt R])"
    using assms(2,3) by (intro current_ambiguous)
  then show ?thesis
    by simp
qed

theorem current_window_is_resolved_first_witness:
  "query
     (testGatherer [testSecret]
       [testRequest ''seventh'' ''web'' 7, testRequest ''seventh again'' ''web'' 7,
        testRequest ''eighth'' ''web'' 8, testRequest ''eighth again'' ''web'' 8])
     (testCertificate (Some 7)) 7
     = ([testRequest ''seventh'' ''web'' 7, testRequest ''seventh again'' ''web'' 7], None)
   \<and> query
     (testGatherer [testSecret]
       [testRequest ''seventh'' ''web'' 7, testRequest ''seventh again'' ''web'' 7,
        testRequest ''eighth'' ''web'' 8, testRequest ''eighth again'' ''web'' 8])
     (testCertificate (Some 7)) 8
     = ([testRequest ''eighth'' ''web'' 8, testRequest ''eighth again'' ''web'' 8], None)
   \<and> DataForCertificate
     (testGatherer [testSecret]
       [testRequest ''seventh'' ''web'' 7, testRequest ''seventh again'' ''web'' 7,
        testRequest ''eighth'' ''web'' 8, testRequest ''eighth again'' ''web'' 8])
     (testCertificate (Some 7))
     = ((Input_zero, Some (AmbiguityError Current 7)),
        [lookupCall (testCertificate (Some 7)), queryCall Current (testCertificate (Some 7)) 7])"
proof -
  let ?crt = "testCertificate (Some 7)"
  let ?g = "testGatherer [testSecret]
    [testRequest ''seventh'' ''web'' 7, testRequest ''seventh again'' ''web'' 7,
     testRequest ''eighth'' ''web'' 8, testRequest ''eighth again'' ''web'' 8]"
  have passes: "snd (lookup ?g ?crt) = None \<or> IsNotFound (snd (lookup ?g ?crt))"
    by (simp add: lookup_present)
  have rev: "Revision (Status ?crt) = Some 7"
    by (simp add: testCertificate_fields)
  have cur: "query ?g ?crt 7 =
      ([testRequest ''seventh'' ''web'' 7, testRequest ''seventh again'' ''web'' 7], None)"
    by (simp add: query_fake testRequest_fields)
  have nxt: "query ?g ?crt (7 + 1) =
      ([testRequest ''eighth'' ''web'' 8, testRequest ''eighth again'' ''web'' 8], None)"
    by (simp add: query_fake testRequest_fields)
  have "fst (DataForCertificate ?g ?crt) = (Input_zero, Some (AmbiguityError Current 7))
      \<and> snd (DataForCertificate ?g ?crt) = [lookupCall ?crt, queryCall Current ?crt 7]"
    using current_window_is_resolved_first [OF passes rev cur _ nxt] by simp
  with cur nxt show ?thesis
    by (simp add: prod_eq_iff)
qed

text \<open>
  Claim C8 as stated fails when the secret store fails: with two requests in each
  window, a secret store that is unreachable makes the resolution return the store's
  error, not the ambiguity error of the current window.
\<close>

theorem current_window_is_resolved_first_counterexample:
  "Revision (Status (testCertificate (Some 7))) = Some 7
   \<and> query
     \<lparr>CertificateRequestLister = fakeRequestLister
        [testRequest ''seventh'' ''web'' 7, testRequest ''seventh again'' ''web'' 7,
         testRequest ''eighth'' ''web'' 8, testRequest ''eighth again'' ''web'' 8],
      SecretLister = failingSecretLister (StoreError ''secret store unreachable'')\<rparr>
     (testCertificate (Some 7)) 7
     = ([testRequest ''seventh'' ''web'' 7, testRequest ''seventh again'' ''web'' 7], None)
   \<and> query
     \<lparr>CertificateRequestLister = fakeRequestLister
        [testRequest ''seventh'' ''web'' 7, testRequest ''seventh again'' ''web'' 7,
         testRequest ''eighth'' ''web'' 8, testRequest ''eighth again'' ''web'' 8],
      SecretLister = failingSecretLister (StoreError ''secret store unreachable'')\<rparr>
     (testCertificate (Some 7)) 8
     = ([testRequest ''eighth'' ''web'' 8, testRequest ''eighth again'' ''web'' 8], None)
   \<and> snd (fst (DataForCertificate
     \<lparr>CertificateRequestLister = fakeRequestLister
        [testRequest ''seventh'' ''web'' 7, testRequest ''seventh again'' ''web'' 7,
         testRequest ''eighth'' ''web'' 8, testRequest ''eighth again'' ''web'' 8],
      SecretLister = failingSecretLister (StoreError ''secret store unreachable'')\<rparr>
     (testCertificate (Some 7)))) = Some (StoreError ''secret store unreachable'')
   \<and> snd (fst (DataForCertificate
     \<lparr>CertificateRequestLister = fakeRequestLister
        [testRequest ''seventh'' ''web'' 7, testRequest ''seventh again'' ''web'' 7,
         testRequest ''eighth'' ''web'' 8, testRequest ''eighth again'' ''web'' 8],
      SecretLister = failingSecretLister (StoreError ''secret store unreachable'')\<rparr>
     (testCertificate (Some 7)))) \<noteq> Some (AmbiguityError Current 7)"
proof -
  let ?crt = "testCertificate (Some 7)"
  let ?g = "\<lparr>CertificateRequestLister = fakeRequestLister
        [testRequest ''seventh'' ''web'' 7, testRequest ''seventh again'' ''web'' 7,
         testRequest ''eighth'' ''web'' 8, testRequest ''eighth again'' ''web'' 8],
      SecretLister = failingSecretLister (StoreError ''secret store unreachable'')\<rparr>"
  have broken: "lookup ?g ?crt = (None, Some (StoreError ''secret store unreachable''))"
    by (simp add: failingSecretLister_def)
  have "DataForCertificate ?g ?crt =
      ((Input_zero, Some (StoreError ''secret store unreachable'')), [lookupCall ?crt])"
    by (rule secret_error [OF broken]) simp
  moreover have "query ?g ?crt 7 =
      ([testRequest ''seventh'' ''web'' 7, testRequest ''seventh again'' ''web'' 7], None)"
    by (simp add: fakeRequestLister_def ListCertificateRequestsMatchingPredicates_def
        testRequest_fields testCertificate_fields)
  moreover have "query ?g ?crt 8 =
      ([testRequest ''eighth'' ''web'' 8, testRequest ''eighth again'' ''web'' 8], None)"
    by (simp add: fakeRequestLister_def ListCertificateRequestsMatchingPredicates_def
        testRequest_fields testCertificate_fields)
  ultimately show ?thesis
    by (simp add: testCertificate_fields AmbiguityError_def)
qed

section \<open>Determinism\<close>

text \<open>
  Claim C10. The resolution is determined by the certificate and the contents of the two
  stores: two resolutions against stores that give the same answer to the secret lookup
  and hold the same requests in the certificate's namespace (the same multiset, listed
  in any order, with the same store error if any) return the same \<open>Input\<close>, the same
  error and make the same calls. The view returned on success carries the input
  certificate itself (with an error, the view is empty).
\<close>

theorem resolution_is_deterministic:
  assumes "lookup g' crt = lookup g crt"
    and "mset (fst (CertificateRequestLister g' (Namespace crt) Everything)) =
         mset (fst (CertificateRequestLister g (Namespace crt) Everything))"
    and "snd (CertificateRequestLister g' (Namespace crt) Everything) =
         snd (CertificateRequestLister g (Namespace crt) Everything)"
  shows "DataForCertificate g' crt = DataForCertificate g crt
       \<and> Certificate (fst (fst (DataForCertificate g crt))) =
           (if snd (fst (DataForCertificate g crt)) = None then Some crt else None)"
proof
  show "DataForCertificate g' crt = DataForCertificate g crt"
    using assms(1) query_mset [OF assms(2,3)]
    by (intro DataForCertificate_mset_cong) simp_all
  show "Certificate (fst (fst (DataForCertificate g crt))) =
          (if snd (fst (DataForCertificate g crt)) = None then Some crt else None)"
    by (rule view_certificate)
qed

theorem resolution_is_deterministic_witness:
  "fst (CertificateRequestLister
       (testGatherer [testSecret, testSecret\<lparr>SecretObjectName := ''ca-secret''\<rparr>]
         [testRequest ''third again'' ''web'' 3, testRequest ''second'' ''web'' 2,
          testRequest ''third'' ''web'' 3, testRequest ''first'' ''web'' 1])
       (Namespace (testCertificate (Some 1))) Everything)
     \<noteq> fst (CertificateRequestLister
       (testGatherer [testSecret]
         [testRequest ''first'' ''web'' 1, testRequest ''second'' ''web'' 2,
          testRequest ''third'' ''web'' 3, testRequest ''third again'' ''web'' 3])
       (Namespace (testCertificate (Some 1))) Everything)
   \<and> DataForCertificate
       (testGatherer [testSecret, testSecret\<lparr>SecretObjectName := ''ca-secret''\<rparr>]
         [testRequest ''third again'' ''web'' 3, testRequest ''second'' ''web'' 2,
          testRequest ''third'' ''web'' 3, testRequest ''first'' ''web'' 1])
       (testCertificate (Some 1))
     = DataForCertificate
       (testGatherer [testSecret]
         [testRequest ''first'' ''web'' 1, testRequest ''second'' ''web'' 2,
          testRequest ''third'' ''web'' 3, testRequest ''third again'' ''web'' 3])
       (testCertificate (Some 1))
   \<and> fst (DataForCertificate
       (testGatherer [testSecret]
         [testRequest ''first'' ''web'' 1, testRequest ''second'' ''web'' 2,
          testRequest ''third'' ''web'' 3, testRequest ''third again'' ''web'' 3])
       (testCertificate (Some 1)))
     = (\<lparr>Certificate = Some (testCertificate (Some 1)), Secret = Some testSecret,
         CurrentRevisionRequest = Some (testRequest ''first'' ''web'' 1),
         NextRevisionRequest = Some (testRequest ''second'' ''web'' 2)\<rparr>, None)
   \<and> DataForCertificate
       (testGatherer [testSecret]
         [testRequest ''third again'' ''web'' 3, testRequest ''second'' ''web'' 2,
          testRequest ''third'' ''web'' 3, testRequest ''first'' ''web'' 1])
       (testCertificate (Some 3))
     = DataForCertificate
       (testGatherer [testSecret]
         [testRequest ''first'' ''web'' 1, testRequest ''second'' ''web'' 2,
          testRequest ''third'' ''web'' 3, testRequest ''third again'' ''web'' 3])
       (testCertificate (Some 3))
   \<and> snd (fst (DataForCertificate
       (testGatherer [testSecret]
         [testRequest ''first'' ''web'' 1, testRequest ''second'' ''web'' 2,
          testRequest ''third'' ''web'' 3, testRequest ''third again'' ''web'' 3])
       (testCertificate (Some 3)))) = Some (AmbiguityError Current 3)"
proof -
  let ?one = "testCertificate (Some 1)"
  let ?three = "testCertificate (Some 3)"
  let ?sorted = "[testRequest ''first'' ''web'' 1, testRequest ''second'' ''web'' 2,
    testRequest ''third'' ''web'' 3, testRequest ''third again'' ''web'' 3]"
  let ?shuffled = "[testRequest ''third again'' ''web'' 3, testRequest ''second'' ''web'' 2,
    testRequest ''third'' ''web'' 3, testRequest ''first'' ''web'' 1]"
  let ?g = "testGatherer [testSecret] ?sorted"
  let ?g' = "testGatherer [testSecret, testSecret\<lparr>SecretObjectName := ''ca-secret''\<rparr>] ?shuffled"
  let ?h' = "testGatherer [testSecret] ?shuffled"
  have listed: "fst (CertificateRequestLister ?g ns Everything) =
      filter (\<lambda>r. RequestNamespace r = ns) ?sorted"
    and listed': "fst (CertificateRequestLister ?g' ns Everything) =
      filter (\<lambda>r. RequestNamespace r = ns) ?shuffled"
    and listed'': "fst (CertificateRequestLister ?h' ns Everything) =
      filter (\<lambda>r. RequestNamespace r = ns) ?shuffled"
    and errors: "snd (CertificateRequestLister ?g ns Everything) = None"
      "snd (CertificateRequestLister ?g' ns Everything) = None"
      "snd (CertificateRequestLister ?h' ns Everything) = None" for ns
    by (simp_all add: testGatherer_def fakeRequestLister_def)
  have order: "fst (CertificateRequestLister ?g' (Namespace ?one) Everything)
      \<noteq> fst (CertificateRequestLister ?g (Namespace ?one) Everything)"
    by (simp add: testGatherer_def fakeRequestLister_def testRequest_def testCertificate_def)
  have secrets: "lookup ?g' ?one = lookup ?g ?one"
    by (simp add: testGatherer_def fakeSecretLister_def testSecret_def testCertificate_def)
  have contents: "mset (fst (CertificateRequestLister ?g' (Namespace ?one) Everything)) =
      mset (fst (CertificateRequestLister ?g (Namespace ?one) Everything))"
    by (simp add: listed listed' testRequest_fields testCertificate_fields)
  have failures: "snd (CertificateRequestLister ?g' (Namespace ?one) Everything) =
      snd (CertificateRequestLister ?g (Namespace ?one) Everything)"
    by (simp add: errors)
  have secrets3: "lookup ?h' ?three = lookup ?g ?three"
    by (simp add: lookup_present)
  have contents3: "mset (fst (CertificateRequestLister ?h' (Namespace ?three) Everything)) =
      mset (fst (CertificateRequestLister ?g (Namespace ?three) Everything))"
    by (simp add: listed listed'' testRequest_fields testCertificate_fields)
  have failures3: "snd (CertificateRequestLister ?h' (Namespace ?three) Everything) =
      snd (CertificateRequestLister ?g (Namespace ?three) Everything)"
    by (simp add: errors)
  have cur: "query ?g ?one 1 = ([testRequest ''first'' ''web'' 1], None)"
    by (simp add: query_fake testRequest_fields)
  have nxt: "query ?g ?one (1 + 1) = ([testRequest ''second'' ''web'' 2], None)"
    by (simp add: query_fake testRequest_fields)
  have run: "fst (DataForCertificate ?g ?one) =
      (\<lparr>Certificate = Some ?one, Secret = Some testSecret,
        CurrentRevisionRequest = Some (testRequest ''first'' ''web'' 1),
        NextRevisionRequest = Some (testRequest ''second'' ''web'' 2)\<rparr>, None)"
    by (simp add: some_success [OF lookup_present _ _ cur _ nxt] testCertificate_fields)
  have dup: "query ?g ?three 3 =
      ([testRequest ''third'' ''web'' 3, testRequest ''third again'' ''web'' 3], None)"
    by (simp add: query_fake testRequest_fields)
  have run3: "snd (fst (DataForCertificate ?g ?three)) = Some (AmbiguityError Current 3)"
    by (simp add: current_ambiguous [OF lookup_present _ _ dup] testCertificate_fields)
  from resolution_is_deterministic [OF secrets contents failures]
    resolution_is_deterministic [OF secrets3 contents3 failures3] order run run3
  show ?thesis
    by simp
qed

end
